theory Spec2Isabelle
  imports Main "HOL-Library.Sublist"
begin

section \<open>Data model\<close>

text \<open>
  JSON values travel through the bridge opaquely (tool arguments, tool outputs, schemas,
  response envelopes); the handlers only build the empty object and the error envelopes.
\<close>

datatype json =
    JNull
  | JBool bool
  | JNum int
  | JStr string
  | JArr "json list"
  | JObj "(string \<times> json) list"

text \<open>
  A thrown JavaScript value: an \<open>Error\<close> object with its \<open>name\<close> and \<open>message\<close>, or any
  other value, kept as what \<open>String(error)\<close> yields.
\<close>

datatype thrown =
    ErrorObj string string
  | NonError string

fun isError :: "thrown \<Rightarrow> bool" where
  "isError (ErrorObj n m) = True"
| "isError (NonError s) = False"

text \<open>\<open>isError(error) ? error.name : 'UnknownError'\<close>\<close>

fun errorType :: "thrown \<Rightarrow> string" where
  "errorType (ErrorObj n m) = n"
| "errorType (NonError s) = ''UnknownError''"

text \<open>\<open>isError(error) ? error.message : String(error)\<close>\<close>

fun errorMessage :: "thrown \<Rightarrow> string" where
  "errorMessage (ErrorObj n m) = m"
| "errorMessage (NonError s) = s"

text \<open>\<open>new NotFoundError(message)\<close> of @backstage/errors.\<close>

definition NotFoundError :: "string \<Rightarrow> thrown" where
  "NotFoundError msg = ErrorObj ''NotFoundError'' msg"

text \<open>The credential is opaque; only \<open>principal.userEntityRef\<close> is read, for audit metadata.\<close>

record credentials =
  userEntityRef :: "string option"

record action =
  action_id :: string
  action_name :: string
  action_description :: string
  action_title :: string
  schema_input :: json
  schema_output :: json
  destructive :: bool
  idempotent :: bool
  readOnly :: bool

record tool_annotations =
  title :: string
  destructiveHint :: bool
  idempotentHint :: bool
  readOnlyHint :: bool
  openWorldHint :: bool

text \<open>
  A protocol tool descriptor. \<open>outputSchema\<close> is the protocol's optional field; \<open>None\<close> is a
  descriptor without that key.
\<close>

record tool =
  inputSchema :: json
  outputSchema :: "json option"
  tool_name :: string
  tool_description :: string
  annotations :: tool_annotations

record list_tools_result =
  tools :: "tool list"

record call_tool_params =
  params_name :: string
  params_arguments :: "json option"

record content_item =
  content_type :: string
  content_text :: string

record call_tool_result =
  content :: "content_item list"

record request =
  authorization :: "string option"
  originalUrl :: string
  query_sessionId :: "string option"
  body :: json

subsection \<open>Audit metadata and the effect trace\<close>

datatype severity = Low | Medium | High | Critical

datatype mval = MStr string | MNum int | MBool bool | MUndefined

type_synonym meta = "(string \<times> mval) list"

text \<open>
  Everything a handler does to the outside world is appended, in order, to a trace of
  effects. An audit handle is the position in the trace of the \<open>CreateEvent\<close> that made it.
\<close>

datatype effect =
    CreateEvent nat string severity "request option" "meta option"
  | EventSuccess nat "meta option"
  | EventFail nat thrown "meta option"
  | ActionsList credentials
  | ActionsInvoke string "json option" credentials
  | HttpAuthCredentials request
  | LoggerError string
  | ServerConnect request
  | TransportHandleRequest request
  | TransportHandlePostMessage string request
  | ResOnClose
  | ResStatus nat
  | ResJson json
  | ResWriteHead nat
  | ResEnd string
  | ResContentType string
  | ResWrite string
  | RegistrySet string
  | RegistryGet string
  | RegistryDelete string

text \<open>
  The collaborators and platform functions the handlers call. Authentication, catalog
  listing, invocation, connecting and transport dispatch may fail (\<open>Inl\<close>, or \<open>Some\<close> error);
  the auditor only records. \<open>kebabCase\<close> is the just-kebab-case package; \<open>stringify\<close> and
  \<open>stringify_indent2\<close> are \<open>JSON.stringify(v)\<close> and \<open>JSON.stringify(v, null, 2)\<close>.
  \<open>transport_handleRequest\<close> also tells whether it sent response headers.

  The auditor's \<open>createEvent\<close> returns a handle and does not fail, as its interface has it;
  \<open>success\<close> and \<open>fail\<close> on a handle are not awaited by the handlers, so they cannot throw
  into them. Building the protocol server and the transport objects does not fail either.
  \<open>ResOnClose\<close> is the registration of the \<open>close\<close> callback on the response.
\<close>

record env =
  kebabCase :: "string \<Rightarrow> string"
  stringify :: "json \<Rightarrow> string"
  stringify_indent2 :: "json \<Rightarrow> string"
  httpAuth_credentials :: "request \<Rightarrow> thrown + credentials"
  actions_list :: "credentials \<Rightarrow> thrown + action list"
  actions_invoke :: "string \<Rightarrow> json option \<Rightarrow> credentials \<Rightarrow> thrown + json"
  server_connect :: "request \<Rightarrow> thrown option"
  transport_handleRequest :: "request \<Rightarrow> thrown option \<times> bool"
  transport_handlePostMessage :: "string \<Rightarrow> request \<Rightarrow> thrown option"

subsection \<open>JavaScript helpers\<close>

text \<open>Truthiness of a string, and of a possibly undefined string.\<close>

definition truthy :: "string \<Rightarrow> bool" where
  "truthy s = (s \<noteq> [])"

fun truthy_opt :: "string option \<Rightarrow> bool" where
  "truthy_opt None = False"
| "truthy_opt (Some s) = truthy s"

definition startsWith :: "string \<Rightarrow> string \<Rightarrow> bool" where
  "startsWith s p = (take (length p) s = p)"

text \<open>\<open>Array.prototype.join\<close> on an array of strings.\<close>

fun join :: "string list \<Rightarrow> string \<Rightarrow> string" where
  "join [] sep = []"
| "join [x] sep = x"
| "join (x # y # ys) sep = x @ sep @ join (y # ys) sep"

text \<open>\<open>(credentials.principal as any).userEntityRef\<close> as a metadata value.\<close>

fun principal :: "credentials \<Rightarrow> mval" where
  "principal c = (case userEntityRef c of None \<Rightarrow> MUndefined | Some r \<Rightarrow> MStr r)"

text \<open>\<open>(credentials?.principal as any)?.userEntityRef\<close>\<close>

fun principal_opt :: "credentials option \<Rightarrow> mval" where
  "principal_opt None = MUndefined"
| "principal_opt (Some c) = principal c"

fun mstr_opt :: "string option \<Rightarrow> mval" where
  "mstr_opt None = MUndefined"
| "mstr_opt (Some s) = MStr s"

section \<open>The auditor\<close>

text \<open>\<open>auditor.createEvent\<close>: records the event and returns its handle.\<close>

definition auditor_createEvent ::
  "string \<Rightarrow> severity \<Rightarrow> request option \<Rightarrow> meta option \<Rightarrow> effect list \<Rightarrow> nat \<times> effect list" where
  "auditor_createEvent eventId severityLevel req m tr =
     (length tr, tr @ [CreateEvent (length tr) eventId severityLevel req m])"

definition UNKNOWN_MCP_EVENT :: string where
  "UNKNOWN_MCP_EVENT = ''mcp-unknown-event''"

text \<open>The local variable \<open>normalizedEventId\<close> of \<open>auditCreateEvent\<close>, after the prefix check.\<close>

definition normalizedEventId :: "env \<Rightarrow> string option \<Rightarrow> string" where
  "normalizedEventId env eventId =
     (let normalized =
            (case eventId of
               None \<Rightarrow> UNKNOWN_MCP_EVENT
             | Some s \<Rightarrow> if truthy s then kebabCase env s else UNKNOWN_MCP_EVENT)
      in if \<not> startsWith normalized ''mcp-'' then ''mcp-'' @ normalized else normalized)"

definition auditCreateEvent ::
  "env \<Rightarrow> string option \<Rightarrow> request \<Rightarrow> severity option \<Rightarrow> meta option \<Rightarrow> effect list
     \<Rightarrow> nat \<times> effect list" where
  "auditCreateEvent env eventId req severityLevel m tr =
     auditor_createEvent (normalizedEventId env eventId)
       (case severityLevel of None \<Rightarrow> Medium | Some s \<Rightarrow> s) (Some req) m tr"

section \<open>McpService\<close>

definition toTool :: "action \<Rightarrow> tool" where
  "toTool a =
     \<lparr> inputSchema = schema_input a,
       outputSchema = None,
       tool_name = action_name a,
       tool_description = action_description a,
       annotations =
         \<lparr> title = action_title a,
           destructiveHint = destructive a,
           idempotentHint = idempotent a,
           readOnlyHint = readOnly a,
           openWorldHint = False \<rparr> \<rparr>"

text \<open>The \<open>ListToolsRequestSchema\<close> handler.\<close>

definition listTools ::
  "env \<Rightarrow> credentials \<Rightarrow> effect list \<Rightarrow> (thrown + list_tools_result) \<times> effect list" where
  "listTools env creds tr =
     (let tr1 = tr @ [ActionsList creds]
      in case actions_list env creds of
           Inl error \<Rightarrow> (Inl error, tr1)
         | Inr actions \<Rightarrow>
             (let (ev, tr2) =
                    auditor_createEvent ''mcp-tool-discovery'' Low None
                      (Some [(''toolCount'', MNum (int (length actions))),
                             (''principal'', principal creds)]) tr1
              in (Inr \<lparr> tools = map toTool actions \<rparr>, tr2)))"

text \<open>The \<open>catch\<close> block of the \<open>CallToolRequestSchema\<close> handler.\<close>

definition callTool_catch ::
  "credentials \<Rightarrow> int \<Rightarrow> int \<Rightarrow> nat \<Rightarrow> thrown \<Rightarrow> effect list
     \<Rightarrow> (thrown + call_tool_result) \<times> effect list" where
  "callTool_catch creds executionStart now executionEvent error tr =
     (let duration = now - executionStart
      in (Inl error,
          tr @ [EventFail executionEvent error
                  (Some [(''duration'', MNum duration),
                         (''errorType'', MStr (errorType error)),
                         (''errorMessage'', MStr (errorMessage error)),
                         (''principal'', principal creds)])]))"

text \<open>
  The function passed to \<open>handleErrors\<close> by the \<open>CallToolRequestSchema\<close> handler.
  \<open>executionStart\<close> is the first reading of \<open>Date.now()\<close>, \<open>now\<close> the second one, taken on
  whichever path the run ends.
\<close>

definition callTool ::
  "env \<Rightarrow> credentials \<Rightarrow> call_tool_params \<Rightarrow> int \<Rightarrow> int \<Rightarrow> effect list
     \<Rightarrow> (thrown + call_tool_result) \<times> effect list" where
  "callTool env creds params executionStart now tr =
     (let inputSize =
            length (stringify env (case params_arguments params of None \<Rightarrow> JObj [] | Some a \<Rightarrow> a));
          (executionEvent, tr1) =
            auditor_createEvent ''mcp-tool-execution-request'' Medium None
              (Some [(''toolName'', MStr (params_name params)),
                     (''principal'', principal creds),
                     (''inputSize'', MNum (int inputSize))]) tr;
          tr2 = tr1 @ [ActionsList creds]
      in case actions_list env creds of
           Inl error \<Rightarrow> callTool_catch creds executionStart now executionEvent error tr2
         | Inr actions \<Rightarrow>
             (case find (\<lambda>a. action_name a = params_name params) actions of
                None \<Rightarrow>
                  (let (ev, tr3) =
                         auditor_createEvent ''mcp-tool-not-found'' Medium None
                           (Some [(''toolName'', MStr (params_name params)),
                                  (''principal'', principal creds)]) tr2
                   in callTool_catch creds executionStart now executionEvent
                        (NotFoundError (''Action \"'' @ params_name params @ ''\" not found'')) tr3)
              | Some action \<Rightarrow>
                  (let tr3 = tr2 @ [ActionsInvoke (action_id action) (params_arguments params) creds]
                   in case actions_invoke env (action_id action) (params_arguments params) creds of
                        Inl error \<Rightarrow> callTool_catch creds executionStart now executionEvent error tr3
                      | Inr output \<Rightarrow>
                          (let duration = now - executionStart;
                               outputSize = length (stringify env output);
                               tr4 = tr3 @ [EventSuccess executionEvent
                                              (Some [(''duration'', MNum duration),
                                                     (''outputSize'', MNum (int outputSize)),
                                                     (''principal'', principal creds)])]
                           in (Inr \<lparr> content =
                                       [\<lparr> content_type = ''text'',
                                          content_text =
                                            join [''```json'', stringify_indent2 env output, ''```'']
                                              ''\<newline>'' \<rparr>] \<rparr>,
                               tr4)))))"

text \<open>
  The \<open>CallToolRequestSchema\<close> handler itself. The wrapper \<open>handleErrors\<close> comes from
  \<open>./handleErrors\<close>; it is a parameter here and receives the function above unevaluated.
\<close>

definition callToolHandler ::
  "((unit \<Rightarrow> (thrown + call_tool_result) \<times> effect list) \<Rightarrow> 'r)
     \<Rightarrow> env \<Rightarrow> credentials \<Rightarrow> call_tool_params \<Rightarrow> int \<Rightarrow> int \<Rightarrow> effect list \<Rightarrow> 'r" where
  "callToolHandler handleErrors env creds params executionStart now tr =
     handleErrors (\<lambda>u. callTool env creds params executionStart now tr)"

section \<open>The stateless streaming router\<close>

text \<open>\<open>{jsonrpc: '2.0', error: {code, message}, id: null}\<close>\<close>

definition jsonrpc_error :: "int \<Rightarrow> string \<Rightarrow> json" where
  "jsonrpc_error code message =
     JObj [(''jsonrpc'', JStr ''2.0''),
           (''error'', JObj [(''code'', JNum code), (''message'', JStr message)]),
           (''id'', JNull)]"

text \<open>
  The \<open>catch\<close> block of \<open>POST /\<close>. \<open>clientId\<close> and \<open>credentials\<close> are undefined when the failure
  came before their assignment; \<open>headersSent\<close> is \<open>res.headersSent\<close> at that moment. The
  handler does not rethrow: the first component of the result is the error it propagates.
\<close>

definition streamable_post_catch ::
  "env \<Rightarrow> request \<Rightarrow> string option \<Rightarrow> credentials option \<Rightarrow> bool \<Rightarrow> thrown \<Rightarrow> effect list
     \<Rightarrow> thrown option \<times> effect list" where
  "streamable_post_catch env req clientId creds headersSent error tr =
     (let tr1 = (if isError error then tr @ [LoggerError (errorMessage error)] else tr);
          (errorEvent, tr2) =
            auditCreateEvent env (Some ''http-error'') req (Some High)
              (Some [(''transport'', MStr ''streamable''),
                     (''clientId'', mstr_opt clientId),
                     (''errorType'', MStr (errorType error)),
                     (''errorMessage'', MStr (errorMessage error)),
                     (''statusCode'', MNum 500),
                     (''jsonrpcCode'', MNum (- 32603)),
                     (''principal'', principal_opt creds)]) tr1;
          tr3 = (if \<not> headersSent
                 then tr2 @ [ResStatus 500, ResJson (jsonrpc_error (- 32603) ''Internal server error'')]
                 else tr2)
      in (None, tr3 @ [EventFail errorEvent error None]))"

text \<open>
  \<open>POST /\<close>. \<open>res_headersSent\<close> is \<open>res.headersSent\<close> on entry and \<open>uuid\<close> what \<open>randomUUID()\<close>
  returns.
\<close>

definition streamable_post ::
  "env \<Rightarrow> request \<Rightarrow> bool \<Rightarrow> string \<Rightarrow> effect list \<Rightarrow> thrown option \<times> effect list" where
  "streamable_post env req res_headersSent uuid tr =
     (let (authAttemptEvent, tr1) =
            auditCreateEvent env (Some ''auth-attempt'') req (Some Medium)
              (Some [(''transport'', MStr ''streamable''),
                     (''hasAuthHeader'', MBool (truthy_opt (authorization req)))]) tr;
          tr2 = tr1 @ [HttpAuthCredentials req]
      in case httpAuth_credentials env req of
           Inl error \<Rightarrow> streamable_post_catch env req None None res_headersSent error tr2
         | Inr creds \<Rightarrow>
             (let tr3 = tr2 @ [EventSuccess authAttemptEvent (Some [(''principal'', principal creds)])];
                  clientId = uuid;
                  tr4 = tr3 @ [ServerConnect req]
              in case server_connect env req of
                   Some error \<Rightarrow>
                     streamable_post_catch env req (Some clientId) (Some creds) res_headersSent error tr4
                 | None \<Rightarrow>
                     (let (connectionEvent, tr5) =
                            auditCreateEvent env (Some ''connection-established'') req (Some Medium)
                              (Some [(''transport'', MStr ''streamable''),
                                     (''clientId'', MStr clientId),
                                     (''principal'', principal creds)]) tr4;
                          tr6 = tr5 @ [TransportHandleRequest req]
                      in case transport_handleRequest env req of
                           (Some error, sent) \<Rightarrow>
                             streamable_post_catch env req (Some clientId) (Some creds)
                               (res_headersSent \<or> sent) error tr6
                         | (None, sent) \<Rightarrow>
                             (None, tr6 @ [ResOnClose, EventSuccess connectionEvent None]))))"

text \<open>\<open>GET /\<close> and \<open>DELETE /\<close> on the stateless path.\<close>

definition streamable_get :: "env \<Rightarrow> request \<Rightarrow> effect list \<Rightarrow> effect list" where
  "streamable_get env req tr =
     (let (ev, tr1) =
            auditCreateEvent env (Some ''method-not-allowed'') req (Some Low)
              (Some [(''method'', MStr ''GET''),
                     (''statusCode'', MNum 405),
                     (''jsonrpcCode'', MNum (- 32000))]) tr
      in tr1 @ [ResWriteHead 405,
                ResEnd (stringify env (jsonrpc_error (- 32000) ''Method not allowed.''))])"

definition streamable_delete :: "env \<Rightarrow> request \<Rightarrow> effect list \<Rightarrow> effect list" where
  "streamable_delete env req tr =
     (let (ev, tr1) =
            auditCreateEvent env (Some ''method-not-allowed'') req (Some Low)
              (Some [(''method'', MStr ''DELETE''),
                     (''statusCode'', MNum 405),
                     (''jsonrpcCode'', MNum (- 32000))]) tr
      in tr1 @ [ResWriteHead 405,
                ResEnd (stringify env (jsonrpc_error (- 32000) ''Method not allowed.''))])"

section \<open>The legacy event-stream router\<close>

record sse_transport =
  endpoint :: string
  sessionId :: string

text \<open>The router's state: its session registry, and the effects so far.\<close>

record sse_router =
  transportsToSessionId :: "string \<rightharpoonup> sse_transport"
  effects :: "effect list"

text \<open>The \<open>catch\<close> block of the legacy \<open>GET /\<close>: it records the error and rethrows it.\<close>

definition sse_get_catch ::
  "env \<Rightarrow> request \<Rightarrow> credentials option \<Rightarrow> thrown \<Rightarrow> sse_router \<Rightarrow> thrown option \<times> sse_router" where
  "sse_get_catch env req creds error st =
     (let (ev, tr1) =
            auditCreateEvent env (Some ''connection-error'') req (Some High)
              (Some [(''transport'', MStr ''sse''),
                     (''errorType'', MStr (errorType error)),
                     (''errorMessage'', MStr (errorMessage error)),
                     (''principal'', principal_opt creds)]) (effects st)
      in (Some error, st\<lparr>effects := tr1\<rparr>))"

text \<open>The legacy \<open>GET /\<close>; \<open>uuid\<close> is the session id the new transport gives itself.\<close>

definition sse_get :: "env \<Rightarrow> request \<Rightarrow> string \<Rightarrow> sse_router \<Rightarrow> thrown option \<times> sse_router" where
  "sse_get env req uuid st =
     (let (authAttemptEvent, tr1) =
            auditCreateEvent env (Some ''auth-attempt'') req (Some Medium)
              (Some [(''transport'', MStr ''sse''),
                     (''hasAuthHeader'', MBool (truthy_opt (authorization req)))]) (effects st);
          tr2 = tr1 @ [HttpAuthCredentials req]
      in case httpAuth_credentials env req of
           Inl error \<Rightarrow> sse_get_catch env req None error (st\<lparr>effects := tr2\<rparr>)
         | Inr creds \<Rightarrow>
             (let tr3 = tr2 @ [EventSuccess authAttemptEvent (Some [(''principal'', principal creds)])];
                  transport = \<lparr> endpoint = originalUrl req @ ''/messages'', sessionId = uuid \<rparr>;
                  reg = (transportsToSessionId st)(sessionId transport \<mapsto> transport);
                  tr4 = tr3 @ [RegistrySet (sessionId transport)];
                  (connectionEvent, tr5) =
                    auditCreateEvent env (Some ''connection-established'') req (Some Medium)
                      (Some [(''transport'', MStr ''sse''),
                             (''sessionId'', MStr (sessionId transport)),
                             (''principal'', principal creds)]) tr4;
                  tr6 = tr5 @ [ResOnClose, ServerConnect req]
              in case server_connect env req of
                   Some error \<Rightarrow>
                     sse_get_catch env req (Some creds) error
                       \<lparr> transportsToSessionId = reg, effects = tr6 \<rparr>
                 | None \<Rightarrow>
                     (None, \<lparr> transportsToSessionId = reg,
                              effects = tr6 @ [EventSuccess connectionEvent None] \<rparr>)))"

text \<open>The \<open>close\<close> callback registered by the legacy \<open>GET /\<close>.\<close>

definition sse_on_close ::
  "env \<Rightarrow> request \<Rightarrow> sse_transport \<Rightarrow> credentials option \<Rightarrow> int \<Rightarrow> int \<Rightarrow> sse_router \<Rightarrow> sse_router" where
  "sse_on_close env req transport creds connectionStart now st =
     (let duration = now - connectionStart;
          (ev, tr1) =
            auditCreateEvent env (Some ''connection-closed'') req (Some Low)
              (Some [(''transport'', MStr ''sse''),
                     (''sessionId'', MStr (sessionId transport)),
                     (''duration'', MNum duration),
                     (''principal'', principal_opt creds)]) (effects st)
      in \<lparr> transportsToSessionId = (transportsToSessionId st)(sessionId transport := None),
           effects = tr1 @ [RegistryDelete (sessionId transport)] \<rparr>)"

text \<open>
  \<open>POST /messages\<close>. \<open>req.query.sessionId\<close> is undefined when the parameter is not given;
  \<open>!sessionId\<close> also holds for the empty string.
\<close>

definition sse_post_messages :: "env \<Rightarrow> request \<Rightarrow> sse_router \<Rightarrow> thrown option \<times> sse_router" where
  "sse_post_messages env req st =
     (if \<not> truthy_opt (query_sessionId req) then
        (let (ev, tr1) =
               auditCreateEvent env (Some ''invalid-session'') req (Some Medium)
                 (Some [(''error'', MStr ''sessionId is required''),
                        (''statusCode'', MNum 400)]) (effects st)
         in (None, st\<lparr>effects := tr1 @ [ResStatus 400, ResContentType ''text/plain'',
                                         ResWrite ''sessionId is required'']\<rparr>))
      else
        (let sid = the (query_sessionId req);
             tr1 = effects st @ [RegistryGet sid]
         in case transportsToSessionId st sid of
              Some transport \<Rightarrow>
                (transport_handlePostMessage env (sessionId transport) req,
                 st\<lparr>effects := tr1 @ [TransportHandlePostMessage (sessionId transport) req]\<rparr>)
            | None \<Rightarrow>
                (let (ev, tr2) =
                       auditCreateEvent env (Some ''invalid-session'') req (Some Medium)
                         (Some [(''sessionId'', MStr sid),
                                (''error'', MStr ''No transport found for sessionId''),
                                (''statusCode'', MNum 400)]) tr1
                 in (None, st\<lparr>effects := tr2 @ [ResStatus 400, ResContentType ''text/plain'',
                                                 ResWrite (''No transport found for sessionId \"''
                                                           @ sid @ ''\"'')]\<rparr>))))"

section \<open>Reading a trace\<close>

text \<open>The effects a handler run added to the trace it started from.\<close>

definition new_effects :: "effect list \<Rightarrow> effect list \<Rightarrow> effect list" where
  "new_effects tr tr' = drop (length tr) tr'"

text \<open>A completion (\<open>success\<close> or \<open>fail\<close>) of the audit handle \<open>h\<close>.\<close>

fun completes :: "nat \<Rightarrow> effect \<Rightarrow> bool" where
  "completes h (EventSuccess h' m) = (h' = h)"
| "completes h (EventFail h' e m) = (h' = h)"
| "completes h x = False"

text \<open>A write to the HTTP response.\<close>

fun is_response :: "effect \<Rightarrow> bool" where
  "is_response (ResStatus n) = True"
| "is_response (ResJson j) = True"
| "is_response (ResWriteHead n) = True"
| "is_response (ResEnd b) = True"
| "is_response (ResContentType t) = True"
| "is_response (ResWrite b) = True"
| "is_response x = False"

fun is_invoke :: "effect \<Rightarrow> bool" where
  "is_invoke (ActionsInvoke i a c) = True"
| "is_invoke x = False"

fun is_registry :: "effect \<Rightarrow> bool" where
  "is_registry (RegistrySet s) = True"
| "is_registry (RegistryGet s) = True"
| "is_registry (RegistryDelete s) = True"
| "is_registry x = False"

fun is_handlePostMessage :: "effect \<Rightarrow> bool" where
  "is_handlePostMessage (TransportHandlePostMessage s r) = True"
| "is_handlePostMessage x = False"

fun is_auth_or_session :: "effect \<Rightarrow> bool" where
  "is_auth_or_session (HttpAuthCredentials r) = True"
| "is_auth_or_session (ServerConnect r) = True"
| "is_auth_or_session (TransportHandleRequest r) = True"
| "is_auth_or_session (TransportHandlePostMessage s r) = True"
| "is_auth_or_session x = False"


section \<open>A concrete environment for the scenarios\<close>

text \<open>
  Serialisers that agree with \<open>JSON.stringify\<close> on the values of the scenarios: integers,
  strings without control characters, arrays and objects.
\<close>

definition digit :: "nat \<Rightarrow> char" where
  "digit n = ''0123456789'' ! n"

function show_nat :: "nat \<Rightarrow> string" where
  "show_nat n = (if n < 10 then [digit n] else show_nat (n div 10) @ [digit (n mod 10)])"
  by pat_completeness auto
termination
  by (relation "measure id") auto

definition show_int :: "int \<Rightarrow> string" where
  "show_int i = (if i < 0 then ''-'' @ show_nat (nat (- i)) else show_nat (nat i))"

fun escape :: "string \<Rightarrow> string" where
  "escape [] = []"
| "escape (c # cs) =
     (if c = CHR 0x22 \<or> c = CHR 0x5C then CHR 0x5C # c # escape cs else c # escape cs)"

definition quote :: "string \<Rightarrow> string" where
  "quote s = [CHR 0x22] @ escape s @ [CHR 0x22]"

fun json_compact :: "json \<Rightarrow> string" where
  "json_compact JNull = ''null''"
| "json_compact (JBool b) = (if b then ''true'' else ''false'')"
| "json_compact (JNum n) = show_int n"
| "json_compact (JStr s) = quote s"
| "json_compact (JArr xs) = ''['' @ join (map json_compact xs) '','' @ '']''"
| "json_compact (JObj kvs) =
     ''{'' @ join (map (\<lambda>kv. quote (fst kv) @ '':'' @ json_compact (snd kv)) kvs) '','' @ ''}''"

definition indent :: "nat \<Rightarrow> string" where
  "indent n = replicate (2 * n) CHR '' ''"

fun json_indent2 :: "nat \<Rightarrow> json \<Rightarrow> string" where
  "json_indent2 n JNull = ''null''"
| "json_indent2 n (JBool b) = (if b then ''true'' else ''false'')"
| "json_indent2 n (JNum i) = show_int i"
| "json_indent2 n (JStr s) = quote s"
| "json_indent2 n (JArr xs) =
     (if xs = [] then ''[]''
      else ''['' @ ''\<newline>'' @ indent (Suc n)
           @ join (map (json_indent2 (Suc n)) xs) ('','' @ ''\<newline>'' @ indent (Suc n))
           @ ''\<newline>'' @ indent n @ '']'')"
| "json_indent2 n (JObj kvs) =
     (if kvs = [] then ''{}''
      else ''{'' @ ''\<newline>'' @ indent (Suc n)
           @ join (map (\<lambda>kv. quote (fst kv) @ '': '' @ json_indent2 (Suc n) (snd kv)) kvs)
               ('','' @ ''\<newline>'' @ indent (Suc n))
           @ ''\<newline>'' @ indent n @ ''}'')"

text \<open>Stands in for the just-kebab-case package on the ids of the scenarios.\<close>

definition scenario_kebabCase :: "string \<Rightarrow> string" where
  "scenario_kebabCase s = map (\<lambda>c. if c = CHR '' '' \<or> c = CHR ''_'' then CHR ''-'' else c) s"

definition scenario_creds :: credentials where
  "scenario_creds = \<lparr> userEntityRef = Some ''user:default/guest'' \<rparr>"

definition scenario_action :: action where
  "scenario_action =
     \<lparr> action_id = ''scaffolder:create-repo'',
       action_name = ''create-repo'',
       action_description = ''Creates a repository'',
       action_title = ''Create repository'',
       schema_input = JObj [(''type'', JStr ''object'')],
       schema_output = JObj [(''type'', JStr ''object'')],
       destructive = True,
       idempotent = False,
       readOnly = False \<rparr>"

text \<open>
  One action in the catalog, which returns \<open>{url: "https://..."}\<close>; authentication succeeds
  exactly for a request with an authorization header; the transports do not fail.
\<close>

definition scenario_env :: env where
  "scenario_env =
     \<lparr> kebabCase = scenario_kebabCase,
       stringify = json_compact,
       stringify_indent2 = json_indent2 0,
       httpAuth_credentials =
         (\<lambda>req. if truthy_opt (authorization req) then Inr scenario_creds
                else Inl (ErrorObj ''AuthenticationError'' ''Missing credentials'')),
       actions_list = (\<lambda>c. Inr [scenario_action]),
       actions_invoke =
         (\<lambda>i a c. if i = ''scaffolder:create-repo'' then Inr (JObj [(''url'', JStr ''https://...'')])
                  else Inl (ErrorObj ''Error'' ''unknown action'')),
       server_connect = (\<lambda>req. None),
       transport_handleRequest = (\<lambda>req. (None, True)),
       transport_handlePostMessage = (\<lambda>s req. None) \<rparr>"

definition scenario_request :: request where
  "scenario_request =
     \<lparr> authorization = Some ''Bearer token'',
       originalUrl = ''/api/mcp-actions/v1/sse'',
       query_sessionId = None,
       body = JNull \<rparr>"

definition scenarioC_params :: call_tool_params where
  "scenarioC_params = \<lparr> params_name = ''does-not-exist'', params_arguments = None \<rparr>"

definition scenarioB_params :: call_tool_params where
  "scenarioB_params =
     \<lparr> params_name = ''create-repo'', params_arguments = Some (JObj [(''name'', JStr ''x'')]) \<rparr>"

definition scenario_anonymous_request :: request where
  "scenario_anonymous_request = scenario_request \<lparr> authorization := None \<rparr>"

definition scenario_sse_router :: sse_router where
  "scenario_sse_router = \<lparr> transportsToSessionId = Map.empty, effects = [] \<rparr>"

definition scenario_empty_session_request :: request where
  "scenario_empty_session_request = scenario_request \<lparr> query_sessionId := Some [] \<rparr>"

definition scenario_unknown_session_request :: request where
  "scenario_unknown_session_request = scenario_request \<lparr> query_sessionId := Some ''abc'' \<rparr>"

text \<open>A router that has opened one session and forwarded one message to it.\<close>

definition scenario_live_transport :: sse_transport where
  "scenario_live_transport =
     \<lparr> endpoint = ''/api/mcp-actions/v1/sse/messages'', sessionId = ''live-session'' \<rparr>"

definition scenario_live_sse_router :: sse_router where
  "scenario_live_sse_router =
     \<lparr> transportsToSessionId = [''live-session'' \<mapsto> scenario_live_transport],
       effects = [RegistrySet ''live-session'',
                  RegistryGet ''live-session'',
                  TransportHandlePostMessage ''live-session'' scenario_request] \<rparr>"

section \<open>McpService: the four ways a tool invocation ends\<close>

lemma callTool_list_fails:
  assumes "actions_list env creds = Inl error"
  shows "callTool env creds params t0 t1 tr =
           (Inl error,
            tr @ [CreateEvent (length tr) ''mcp-tool-execution-request'' Medium None
                    (Some [(''toolName'', MStr (params_name params)),
                           (''principal'', principal creds),
                           (''inputSize'', MNum (int (length (stringify env
                               (case params_arguments params of None \<Rightarrow> JObj [] | Some a \<Rightarrow> a)))))]),
                  ActionsList creds,
                  EventFail (length tr) error
                    (Some [(''duration'', MNum (t1 - t0)),
                           (''errorType'', MStr (errorType error)),
                           (''errorMessage'', MStr (errorMessage error)),
                           (''principal'', principal creds)])])"
  using assms by (simp add: callTool_def callTool_catch_def auditor_createEvent_def Let_def)

lemma callTool_not_found:
  assumes "actions_list env creds = Inr actions"
      and "find (\<lambda>a. action_name a = params_name params) actions = None"
  shows "callTool env creds params t0 t1 tr =
           (Inl (NotFoundError (''Action \"'' @ params_name params @ ''\" not found'')),
            tr @ [CreateEvent (length tr) ''mcp-tool-execution-request'' Medium None
                    (Some [(''toolName'', MStr (params_name params)),
                           (''principal'', principal creds),
                           (''inputSize'', MNum (int (length (stringify env
                               (case params_arguments params of None \<Rightarrow> JObj [] | Some a \<Rightarrow> a)))))]),
                  ActionsList creds,
                  CreateEvent (length tr + 2) ''mcp-tool-not-found'' Medium None
                    (Some [(''toolName'', MStr (params_name params)),
                           (''principal'', principal creds)]),
                  EventFail (length tr)
                    (NotFoundError (''Action \"'' @ params_name params @ ''\" not found''))
                    (Some [(''duration'', MNum (t1 - t0)),
                           (''errorType'', MStr ''NotFoundError''),
                           (''errorMessage'',
                              MStr (''Action \"'' @ params_name params @ ''\" not found'')),
                           (''principal'', principal creds)])])"
  using assms
  by (simp add: callTool_def callTool_catch_def auditor_createEvent_def Let_def NotFoundError_def)

lemma callTool_invoke_fails:
  assumes "actions_list env creds = Inr actions"
      and "find (\<lambda>a. action_name a = params_name params) actions = Some action"
      and "actions_invoke env (action_id action) (params_arguments params) creds = Inl error"
  shows "callTool env creds params t0 t1 tr =
           (Inl error,
            tr @ [CreateEvent (length tr) ''mcp-tool-execution-request'' Medium None
                    (Some [(''toolName'', MStr (params_name params)),
                           (''principal'', principal creds),
                           (''inputSize'', MNum (int (length (stringify env
                               (case params_arguments params of None \<Rightarrow> JObj [] | Some a \<Rightarrow> a)))))]),
                  ActionsList creds,
                  ActionsInvoke (action_id action) (params_arguments params) creds,
                  EventFail (length tr) error
                    (Some [(''duration'', MNum (t1 - t0)),
                           (''errorType'', MStr (errorType error)),
                           (''errorMessage'', MStr (errorMessage error)),
                           (''principal'', principal creds)])])"
  using assms by (simp add: callTool_def callTool_catch_def auditor_createEvent_def Let_def)

lemma callTool_success:
  assumes "actions_list env creds = Inr actions"
      and "find (\<lambda>a. action_name a = params_name params) actions = Some action"
      and "actions_invoke env (action_id action) (params_arguments params) creds = Inr output"
  shows "callTool env creds params t0 t1 tr =
           (Inr \<lparr> content =
                    [\<lparr> content_type = ''text'',
                       content_text = ''```json'' @ ''\<newline>'' @ stringify_indent2 env output
                                      @ ''\<newline>'' @ ''```'' \<rparr>] \<rparr>,
            tr @ [CreateEvent (length tr) ''mcp-tool-execution-request'' Medium None
                    (Some [(''toolName'', MStr (params_name params)),
                           (''principal'', principal creds),
                           (''inputSize'', MNum (int (length (stringify env
                               (case params_arguments params of None \<Rightarrow> JObj [] | Some a \<Rightarrow> a)))))]),
                  ActionsList creds,
                  ActionsInvoke (action_id action) (params_arguments params) creds,
                  EventSuccess (length tr)
                    (Some [(''duration'', MNum (t1 - t0)),
                           (''outputSize'', MNum (int (length (stringify env output)))),
                           (''principal'', principal creds)])])"
  using assms by (simp add: callTool_def auditor_createEvent_def Let_def)

text \<open>Every run ends in exactly one of the four ways.\<close>

lemma callTool_cases:
  obtains
    (list_fails) error where "actions_list env creds = Inl error"
  | (not_found) actions where "actions_list env creds = Inr actions"
      "find (\<lambda>a. action_name a = params_name params) actions = None"
  | (invoke_fails) actions action error where "actions_list env creds = Inr actions"
      "find (\<lambda>a. action_name a = params_name params) actions = Some action"
      "actions_invoke env (action_id action) (params_arguments params) creds = Inl error"
  | (success) actions action out where "actions_list env creds = Inr actions"
      "find (\<lambda>a. action_name a = params_name params) actions = Some action"
      "actions_invoke env (action_id action) (params_arguments params) creds = Inr out"
proof (cases "actions_list env creds")
  case (Inl error)
  then show ?thesis by (rule list_fails)
next
  case (Inr actions)
  show ?thesis
  proof (cases "find (\<lambda>a. action_name a = params_name params) actions")
    case None
    with Inr show ?thesis by (rule not_found)
  next
    case (Some action)
    show ?thesis
    proof (cases "actions_invoke env (action_id action) (params_arguments params) creds")
      case (Inl error)
      with Inr Some show ?thesis by (rule invoke_fails)
    next
      case Inr2: (Inr out)
      with Inr Some show ?thesis by (rule success)
    qed
  qed
qed

text \<open>
  Claim C1. Every tool invocation lists the catalog afresh under the session's credential and
  looks for the entry whose name is the requested tool name. When there is none, it records
  an \<open>mcp-tool-not-found\<close> audit event and fails with a \<open>NotFoundError\<close> whose message is
  \<open>Action "<name>" not found\<close>, so contains the requested name, and the backend's invoke
  operation is not called.
\<close>

theorem callTool_unknown_tool:
  "ActionsList creds \<in> set (new_effects tr (snd (callTool env creds params t0 t1 tr)))
   \<and> (\<forall>actions. actions_list env creds = Inr actions
          \<and> find (\<lambda>a. action_name a = params_name params) actions = None
        \<longrightarrow> (\<exists>msg. fst (callTool env creds params t0 t1 tr) = Inl (ErrorObj ''NotFoundError'' msg)
                   \<and> msg = ''Action \"'' @ params_name params @ ''\" not found''
                   \<and> sublist (params_name params) msg)
            \<and> (\<exists>h m. CreateEvent h ''mcp-tool-not-found'' Medium None m
                       \<in> set (new_effects tr (snd (callTool env creds params t0 t1 tr))))
            \<and> filter is_invoke (new_effects tr (snd (callTool env creds params t0 t1 tr))) = [])"
proof (cases rule: callTool_cases [where env = env and creds = creds and params = params])
  case (list_fails error)
  then show ?thesis by (simp add: callTool_list_fails new_effects_def)
next
  case (not_found actions)
  have "sublist (params_name params) (''Action \"'' @ params_name params @ ''\" not found'')"
    by (rule sublist_appendI)
  with not_found show ?thesis
    by (simp add: callTool_not_found new_effects_def NotFoundError_def)
next
  case (invoke_fails actions action error)
  then show ?thesis by (simp add: callTool_invoke_fails new_effects_def)
next
  case (success actions action out)
  then show ?thesis by (simp add: callTool_success new_effects_def)
qed

theorem callTool_unknown_tool_witness:
  "actions_list scenario_env scenario_creds = Inr [scenario_action]
   \<and> find (\<lambda>a. action_name a = params_name scenarioC_params) [scenario_action] = None
   \<and> fst (callTool scenario_env scenario_creds scenarioC_params 100 130 [])
       = Inl (ErrorObj ''NotFoundError'' ''Action \"does-not-exist\" not found'')
   \<and> ActionsList scenario_creds
       \<in> set (new_effects [] (snd (callTool scenario_env scenario_creds scenarioC_params 100 130 [])))
   \<and> filter is_invoke
       (new_effects [] (snd (callTool scenario_env scenario_creds scenarioC_params 100 130 []))) = []"
proof -
  have l: "actions_list scenario_env scenario_creds = Inr [scenario_action]"
    by (simp add: scenario_env_def)
  have f: "find (\<lambda>a. action_name a = params_name scenarioC_params) [scenario_action] = None"
    by (simp add: scenario_action_def scenarioC_params_def)
  from callTool_unknown_tool [of scenario_creds "[]" scenario_env scenarioC_params 100 130] l f
  show ?thesis by (auto simp: scenarioC_params_def)
qed



lemma listTools_success:
  assumes "actions_list env creds = Inr actions"
  shows "listTools env creds tr =
           (Inr \<lparr> tools = map toTool actions \<rparr>,
            tr @ [ActionsList creds,
                  CreateEvent (length tr + 1) ''mcp-tool-discovery'' Low None
                    (Some [(''toolCount'', MNum (int (length actions))),
                           (''principal'', principal creds)])])"
  using assms by (simp add: listTools_def auditor_createEvent_def Let_def)

text \<open>
  Claim C3. When the backend listing succeeds, the List method returns one descriptor per
  action, in order: its name, input schema and description are the action's, its annotations
  carry the action's title and its destructive, idempotent and readOnly attributes, the
  open-world hint is false and no output schema is advertised.
\<close>

theorem listTools_projects_actions:
  assumes "actions_list env creds = Inr actions"
  shows "\<exists>ts. fst (listTools env creds tr) = Inr \<lparr> tools = ts \<rparr>
           \<and> length ts = length actions
           \<and> (\<forall>i < length actions.
                  tool_name (ts ! i) = action_name (actions ! i)
                \<and> inputSchema (ts ! i) = schema_input (actions ! i)
                \<and> tool_description (ts ! i) = action_description (actions ! i)
                \<and> title (annotations (ts ! i)) = action_title (actions ! i)
                \<and> destructiveHint (annotations (ts ! i)) = destructive (actions ! i)
                \<and> idempotentHint (annotations (ts ! i)) = idempotent (actions ! i)
                \<and> readOnlyHint (annotations (ts ! i)) = readOnly (actions ! i)
                \<and> openWorldHint (annotations (ts ! i)) = False
                \<and> outputSchema (ts ! i) = None)"
  using assms by (simp add: listTools_success toTool_def)

theorem listTools_projects_actions_witness:
  "actions_list scenario_env scenario_creds = Inr [scenario_action]
   \<and> (\<exists>ts. fst (listTools scenario_env scenario_creds []) = Inr \<lparr> tools = ts \<rparr>
          \<and> length ts = 1
          \<and> tool_name (ts ! 0) = ''create-repo''
          \<and> inputSchema (ts ! 0) = JObj [(''type'', JStr ''object'')]
          \<and> title (annotations (ts ! 0)) = ''Create repository''
          \<and> destructiveHint (annotations (ts ! 0)) = True
          \<and> idempotentHint (annotations (ts ! 0)) = False
          \<and> readOnlyHint (annotations (ts ! 0)) = False
          \<and> openWorldHint (annotations (ts ! 0)) = False
          \<and> outputSchema (ts ! 0) = None)"
proof -
  have l: "actions_list scenario_env scenario_creds = Inr [scenario_action]"
    by (simp add: scenario_env_def)
  from listTools_projects_actions [OF l, of "[]"] l
  show ?thesis by (auto simp: scenario_action_def)
qed

text \<open>
  Claim C4. A tool invocation returns a result exactly when the listing succeeds, the tool is
  found and the backend returns an output; the result then holds one content element of type
  text, whose text is the opening fence, the indented serialisation of the output and the
  closing fence, separated by newlines.
\<close>

theorem callTool_result_is_fenced_json:
  "fst (callTool env creds params t0 t1 tr) = Inr res
   \<longleftrightarrow> (\<exists>actions action out.
          actions_list env creds = Inr actions
        \<and> find (\<lambda>a. action_name a = params_name params) actions = Some action
        \<and> actions_invoke env (action_id action) (params_arguments params) creds = Inr out
        \<and> res = \<lparr> content =
                    [\<lparr> content_type = ''text'',
                       content_text = ''```json'' @ ''\<newline>'' @ stringify_indent2 env out
                                      @ ''\<newline>'' @ ''```'' \<rparr>] \<rparr>)"
proof (cases rule: callTool_cases [where env = env and creds = creds and params = params])
  case (list_fails error)
  then show ?thesis by (simp add: callTool_list_fails)
next
  case (not_found actions)
  then show ?thesis by (simp add: callTool_not_found)
next
  case (invoke_fails actions action error)
  then show ?thesis by (simp add: callTool_invoke_fails)
next
  case (success actions action out)
  then show ?thesis by (auto simp: callTool_success)
qed

theorem callTool_result_is_fenced_json_witness:
  "fst (callTool scenario_env scenario_creds scenarioB_params 100 130 [])
     = Inr \<lparr> content =
               [\<lparr> content_type = ''text'',
                  content_text =
                    ''```json'' @ ''\<newline>'' @
                    ''{'' @ ''\<newline>'' @ ''  \"url\": \"https://...\"'' @ ''\<newline>'' @ ''}''
                    @ ''\<newline>'' @ ''```'' \<rparr>] \<rparr>"
proof -
  have l: "actions_list scenario_env scenario_creds = Inr [scenario_action]"
    by (simp add: scenario_env_def)
  have f: "find (\<lambda>a. action_name a = params_name scenarioB_params) [scenario_action]
             = Some scenario_action"
    by (simp add: scenario_action_def scenarioB_params_def)
  have i: "actions_invoke scenario_env (action_id scenario_action)
             (params_arguments scenarioB_params) scenario_creds
             = Inr (JObj [(''url'', JStr ''https://...'')])"
    by (simp add: scenario_env_def scenario_action_def)
  have p: "stringify_indent2 scenario_env (JObj [(''url'', JStr ''https://...'')])
             = ''{'' @ ''\<newline>'' @ ''  \"url\": \"https://...\"'' @ ''\<newline>'' @ ''}''"
    by (simp add: scenario_env_def quote_def indent_def numeral_2_eq_2)
  have "\<exists>actions action out.
          actions_list scenario_env scenario_creds = Inr actions
        \<and> find (\<lambda>a. action_name a = params_name scenarioB_params) actions = Some action
        \<and> actions_invoke scenario_env (action_id action) (params_arguments scenarioB_params)
            scenario_creds = Inr out
        \<and> \<lparr> content =
               [\<lparr> content_type = ''text'',
                  content_text =
                    ''```json'' @ ''\<newline>'' @
                    ''{'' @ ''\<newline>'' @ ''  \"url\": \"https://...\"'' @ ''\<newline>'' @ ''}''
                    @ ''\<newline>'' @ ''```'' \<rparr>] \<rparr>
          = \<lparr> content =
                    [\<lparr> content_type = ''text'',
                       content_text = ''```json'' @ ''\<newline>'' @ stringify_indent2 scenario_env out
                                      @ ''\<newline>'' @ ''```'' \<rparr>] \<rparr>"
    using l f i p by simp
  then show ?thesis
    by (simp only: callTool_result_is_fenced_json)
qed

section \<open>The audit helper\<close>

text \<open>
  Claim C9. The event id \<open>auditCreateEvent\<close> passes to the auditor always starts with \<open>mcp-\<close>.
  For a non-empty id it is the kebab-cased id, with \<open>mcp-\<close> put in front exactly when the
  kebab-cased id does not start with it; an absent or empty id becomes \<open>mcp-unknown-event\<close>;
  an id that starts with \<open>mcp-\<close> and that kebab-casing leaves as it is, is passed unchanged.
\<close>

theorem normalizedEventId_prefixed_kebab:
  "startsWith (normalizedEventId env eventId) ''mcp-''
   \<and> (\<forall>s. eventId = Some s \<and> s \<noteq> [] \<longrightarrow>
          normalizedEventId env eventId =
            (if startsWith (kebabCase env s) ''mcp-'' then kebabCase env s
             else ''mcp-'' @ kebabCase env s))
   \<and> (eventId = None \<or> eventId = Some [] \<longrightarrow>
          normalizedEventId env eventId = ''mcp-unknown-event'')
   \<and> (\<forall>s. eventId = Some s \<and> startsWith s ''mcp-'' \<and> kebabCase env s = s \<longrightarrow>
          normalizedEventId env eventId = s)
   \<and> (\<forall>sev m tr. auditCreateEvent env eventId req sev m tr =
          (length tr,
           tr @ [CreateEvent (length tr) (normalizedEventId env eventId)
                   (case sev of None \<Rightarrow> Medium | Some l \<Rightarrow> l) (Some req) m]))"
proof (intro conjI allI impI)
  show "startsWith (normalizedEventId env eventId) ''mcp-''"
    by (simp add: normalizedEventId_def Let_def startsWith_def)
next
  fix s assume "eventId = Some s \<and> s \<noteq> []"
  then show "normalizedEventId env eventId =
            (if startsWith (kebabCase env s) ''mcp-'' then kebabCase env s
             else ''mcp-'' @ kebabCase env s)"
    by (simp add: normalizedEventId_def Let_def truthy_def)
next
  assume "eventId = None \<or> eventId = Some []"
  then show "normalizedEventId env eventId = ''mcp-unknown-event''"
    by (auto simp: normalizedEventId_def Let_def truthy_def UNKNOWN_MCP_EVENT_def startsWith_def)
next
  fix s assume a: "eventId = Some s \<and> startsWith s ''mcp-'' \<and> kebabCase env s = s"
  then have "s \<noteq> []" by (auto simp: startsWith_def)
  with a show "normalizedEventId env eventId = s"
    by (simp add: normalizedEventId_def Let_def truthy_def)
next
  fix sev m tr
  show "auditCreateEvent env eventId req sev m tr =
          (length tr,
           tr @ [CreateEvent (length tr) (normalizedEventId env eventId)
                   (case sev of None \<Rightarrow> Medium | Some l \<Rightarrow> l) (Some req) m])"
    by (simp add: auditCreateEvent_def auditor_createEvent_def)
qed

theorem normalizedEventId_prefixed_kebab_witness:
  "normalizedEventId scenario_env (Some ''auth attempt'') = ''mcp-auth-attempt''
   \<and> normalizedEventId scenario_env (Some ''mcp-tool-discovery'') = ''mcp-tool-discovery''
   \<and> normalizedEventId scenario_env None = ''mcp-unknown-event''
   \<and> startsWith (normalizedEventId scenario_env (Some ''auth attempt'')) ''mcp-''"
proof -
  have k1: "kebabCase scenario_env ''auth attempt'' = ''auth-attempt''"
    by (simp add: scenario_env_def scenario_kebabCase_def)
  have k2: "kebabCase scenario_env ''mcp-tool-discovery'' = ''mcp-tool-discovery''"
    by (simp add: scenario_env_def scenario_kebabCase_def)
  have p1: "\<not> startsWith ''auth-attempt'' ''mcp-''"
    by (simp add: startsWith_def)
  have p2: "startsWith ''mcp-tool-discovery'' ''mcp-''"
    by (simp add: startsWith_def)
  note a = normalizedEventId_prefixed_kebab
             [of scenario_env "Some ''auth attempt''" scenario_request]
  note b = normalizedEventId_prefixed_kebab
             [of scenario_env "Some ''mcp-tool-discovery''" scenario_request]
  note c = normalizedEventId_prefixed_kebab [of scenario_env None scenario_request]
  from a k1 p1 have 1: "normalizedEventId scenario_env (Some ''auth attempt'') = ''mcp-auth-attempt''"
    by simp
  from b k2 p2 have 2: "normalizedEventId scenario_env (Some ''mcp-tool-discovery'') = ''mcp-tool-discovery''"
    by blast
  from c have 3: "normalizedEventId scenario_env None = ''mcp-unknown-event''"
    by blast
  from a have 4: "startsWith (normalizedEventId scenario_env (Some ''auth attempt'')) ''mcp-''"
    by blast
  from 1 2 3 4 show ?thesis by blast
qed

lemma auditCreateEvent_eq:
  "auditCreateEvent env eventId req (Some sev) m tr =
     (length tr, tr @ [CreateEvent (length tr) (normalizedEventId env eventId) sev (Some req) m])"
  by (simp add: auditCreateEvent_def auditor_createEvent_def)

lemma normalizedEventId_unprefixed:
  assumes "kebabCase env s = s" and "s \<noteq> []" and "\<not> startsWith s ''mcp-''"
  shows "normalizedEventId env (Some s) = ''mcp-'' @ s"
  using assms by (simp add: normalizedEventId_def truthy_def Let_def)

section \<open>The stateless router\<close>

lemma streamable_post_catch_eq:
  assumes "kebabCase env ''http-error'' = ''http-error''"
  shows "streamable_post_catch env req clientId creds headersSent error tr =
           (None,
            (tr @ (if isError error then [LoggerError (errorMessage error)] else []))
            @ [CreateEvent (length tr + (if isError error then 1 else 0)) ''mcp-http-error'' High
                 (Some req)
                 (Some [(''transport'', MStr ''streamable''),
                        (''clientId'', mstr_opt clientId),
                        (''errorType'', MStr (errorType error)),
                        (''errorMessage'', MStr (errorMessage error)),
                        (''statusCode'', MNum 500),
                        (''jsonrpcCode'', MNum (- 32603)),
                        (''principal'', principal_opt creds)])]
            @ (if headersSent then []
               else [ResStatus 500, ResJson (jsonrpc_error (- 32603) ''Internal server error'')])
            @ [EventFail (length tr + (if isError error then 1 else 0)) error None])"
proof -
  have "normalizedEventId env (Some ''http-error'') = ''mcp-http-error''"
    using normalizedEventId_unprefixed [OF assms] by (simp add: startsWith_def)
  then show ?thesis
    by (simp add: streamable_post_catch_def auditCreateEvent_eq Let_def)
qed




lemma streamable_get_eq:
  assumes "kebabCase env ''method-not-allowed'' = ''method-not-allowed''"
  shows "streamable_get env req tr =
           tr @ [CreateEvent (length tr) ''mcp-method-not-allowed'' Low (Some req)
                   (Some [(''method'', MStr ''GET''),
                          (''statusCode'', MNum 405),
                          (''jsonrpcCode'', MNum (- 32000))]),
                 ResWriteHead 405,
                 ResEnd (stringify env (jsonrpc_error (- 32000) ''Method not allowed.''))]"
proof -
  have "normalizedEventId env (Some ''method-not-allowed'') = ''mcp-method-not-allowed''"
    using normalizedEventId_unprefixed [OF assms] by (simp add: startsWith_def)
  then show ?thesis
    by (simp add: streamable_get_def auditCreateEvent_eq Let_def)
qed

lemma streamable_delete_eq:
  assumes "kebabCase env ''method-not-allowed'' = ''method-not-allowed''"
  shows "streamable_delete env req tr =
           tr @ [CreateEvent (length tr) ''mcp-method-not-allowed'' Low (Some req)
                   (Some [(''method'', MStr ''DELETE''),
                          (''statusCode'', MNum 405),
                          (''jsonrpcCode'', MNum (- 32000))]),
                 ResWriteHead 405,
                 ResEnd (stringify env (jsonrpc_error (- 32000) ''Method not allowed.''))]"
proof -
  have "normalizedEventId env (Some ''method-not-allowed'') = ''mcp-method-not-allowed''"
    using normalizedEventId_unprefixed [OF assms] by (simp add: startsWith_def)
  then show ?thesis
    by (simp add: streamable_delete_def auditCreateEvent_eq Let_def)
qed

lemma scenario_method_not_allowed_body:
  "json_compact (jsonrpc_error (- 32000) ''Method not allowed.'')
     = ''{\"jsonrpc\":\"2.0\",\"error\":{\"code\":-32000,\"message\":\"Method not allowed.\"},\"id\":null}''"
  by (simp add: jsonrpc_error_def quote_def show_int_def digit_def)

text \<open>
  Claim C7 as stated gives the message as \<open>Method not allowed\<close>. The body the handler writes
  carries \<open>Method not allowed.\<close> instead.
\<close>

theorem streamable_method_not_allowed_counterexample:
  "filter is_response (streamable_get scenario_env scenario_request []) =
     [ResWriteHead 405,
      ResEnd ''{\"jsonrpc\":\"2.0\",\"error\":{\"code\":-32000,\"message\":\"Method not allowed.\"},\"id\":null}'']
   \<and> filter is_response (streamable_get scenario_env scenario_request []) \<noteq>
     [ResWriteHead 405,
      ResEnd (stringify scenario_env (jsonrpc_error (- 32000) ''Method not allowed''))]"
proof -
  have k: "kebabCase scenario_env ''method-not-allowed'' = ''method-not-allowed''"
    by (simp add: scenario_env_def scenario_kebabCase_def)
  have s: "stringify scenario_env = json_compact"
    by (simp add: scenario_env_def)
  have d: "json_compact (jsonrpc_error (- 32000) ''Method not allowed'')
             \<noteq> json_compact (jsonrpc_error (- 32000) ''Method not allowed.'')"
    by (simp add: jsonrpc_error_def quote_def)
  show ?thesis
    using d by (simp add: streamable_get_eq [OF k] s scenario_method_not_allowed_body)
qed

text \<open>
  Claim C7, amended. \<open>GET /\<close> and \<open>DELETE /\<close> on the stateless path do the same thing for every
  request and from every trace: they record a low-severity \<open>mcp-method-not-allowed\<close> event,
  write status 405 and end the response with the serialised envelope of code -32000 and
  message \<open>Method not allowed.\<close>, with the full stop. They neither authenticate nor touch a
  session or a registry. The id is \<open>mcp-method-not-allowed\<close> given that kebab-casing leaves
  \<open>method-not-allowed\<close> as it is.
\<close>

theorem streamable_method_not_allowed:
  assumes "kebabCase env ''method-not-allowed'' = ''method-not-allowed''"
  shows "streamable_get env req tr =
           tr @ [CreateEvent (length tr) ''mcp-method-not-allowed'' Low (Some req)
                   (Some [(''method'', MStr ''GET''),
                          (''statusCode'', MNum 405),
                          (''jsonrpcCode'', MNum (- 32000))]),
                 ResWriteHead 405,
                 ResEnd (stringify env (jsonrpc_error (- 32000) ''Method not allowed.''))]
       \<and> streamable_delete env req tr =
           tr @ [CreateEvent (length tr) ''mcp-method-not-allowed'' Low (Some req)
                   (Some [(''method'', MStr ''DELETE''),
                          (''statusCode'', MNum 405),
                          (''jsonrpcCode'', MNum (- 32000))]),
                 ResWriteHead 405,
                 ResEnd (stringify env (jsonrpc_error (- 32000) ''Method not allowed.''))]
       \<and> filter is_response (new_effects tr (streamable_get env req tr))
           = filter is_response (new_effects tr' (streamable_get env req' tr'))
       \<and> filter is_response (new_effects tr (streamable_delete env req tr))
           = filter is_response (new_effects tr' (streamable_get env req' tr'))
       \<and> filter is_auth_or_session (new_effects tr (streamable_get env req tr)) = []
       \<and> filter is_auth_or_session (new_effects tr (streamable_delete env req tr)) = []
       \<and> filter is_registry (new_effects tr (streamable_get env req tr)) = []
       \<and> filter is_registry (new_effects tr (streamable_delete env req tr)) = []"
  by (simp add: streamable_get_eq [OF assms] streamable_delete_eq [OF assms] new_effects_def)

theorem streamable_method_not_allowed_witness:
  "kebabCase scenario_env ''method-not-allowed'' = ''method-not-allowed''
   \<and> streamable_get scenario_env scenario_request [] =
       [CreateEvent 0 ''mcp-method-not-allowed'' Low (Some scenario_request)
          (Some [(''method'', MStr ''GET''),
                 (''statusCode'', MNum 405),
                 (''jsonrpcCode'', MNum (- 32000))]),
        ResWriteHead 405,
        ResEnd ''{\"jsonrpc\":\"2.0\",\"error\":{\"code\":-32000,\"message\":\"Method not allowed.\"},\"id\":null}'']
   \<and> streamable_delete scenario_env scenario_anonymous_request [] =
       [CreateEvent 0 ''mcp-method-not-allowed'' Low (Some scenario_anonymous_request)
          (Some [(''method'', MStr ''DELETE''),
                 (''statusCode'', MNum 405),
                 (''jsonrpcCode'', MNum (- 32000))]),
        ResWriteHead 405,
        ResEnd ''{\"jsonrpc\":\"2.0\",\"error\":{\"code\":-32000,\"message\":\"Method not allowed.\"},\"id\":null}'']"
proof -
  have k: "kebabCase scenario_env ''method-not-allowed'' = ''method-not-allowed''"
    by (simp add: scenario_env_def scenario_kebabCase_def)
  have s: "stringify scenario_env = json_compact"
    by (simp add: scenario_env_def)
  from streamable_method_not_allowed [OF k, of scenario_request "[]" "[]" scenario_request]
    streamable_method_not_allowed [OF k, of scenario_anonymous_request "[]" "[]" scenario_request]
    k
  show ?thesis
    by (simp add: s scenario_method_not_allowed_body)
qed

section \<open>The legacy router's side channel\<close>

lemma sse_post_messages_required:
  assumes "\<not> truthy_opt (query_sessionId req)"
  shows "sse_post_messages env req st =
           (None,
            st\<lparr>effects := effects st
                  @ [CreateEvent (length (effects st))
                       (normalizedEventId env (Some ''invalid-session'')) Medium (Some req)
                       (Some [(''error'', MStr ''sessionId is required''),
                              (''statusCode'', MNum 400)]),
                     ResStatus 400,
                     ResContentType ''text/plain'',
                     ResWrite ''sessionId is required'']\<rparr>)"
  using assms by (simp add: sse_post_messages_def auditCreateEvent_eq Let_def)

lemma sse_post_messages_unknown:
  assumes "query_sessionId req = Some sid" and "sid \<noteq> []"
      and "transportsToSessionId st sid = None"
  shows "sse_post_messages env req st =
           (None,
            st\<lparr>effects := effects st
                  @ [RegistryGet sid,
                     CreateEvent (Suc (length (effects st)))
                       (normalizedEventId env (Some ''invalid-session'')) Medium (Some req)
                       (Some [(''sessionId'', MStr sid),
                              (''error'', MStr ''No transport found for sessionId''),
                              (''statusCode'', MNum 400)]),
                     ResStatus 400,
                     ResContentType ''text/plain'',
                     ResWrite (''No transport found for sessionId \"'' @ sid @ ''\"'')]\<rparr>)"
  using assms by (simp add: sse_post_messages_def auditCreateEvent_eq Let_def truthy_def)

lemma sse_post_messages_forward:
  assumes "query_sessionId req = Some sid" and "sid \<noteq> []"
      and "transportsToSessionId st sid = Some transport"
  shows "sse_post_messages env req st =
           (transport_handlePostMessage env (sessionId transport) req,
            st\<lparr>effects := effects st
                  @ [RegistryGet sid,
                     TransportHandlePostMessage (sessionId transport) req]\<rparr>)"
  using assms by (simp add: sse_post_messages_def Let_def truthy_def)

lemma normalizedEventId_invalid_session:
  assumes "kebabCase env ''invalid-session'' = ''invalid-session''"
  shows "normalizedEventId env (Some ''invalid-session'') = ''mcp-invalid-session''"
  using normalizedEventId_unprefixed [OF assms] by (simp add: startsWith_def)

text \<open>
  Claim C6 as stated answers a present but unregistered id with the body that names it. For
  the empty id, which \<open>POST /messages?sessionId=\<close> supplies, the handler answers
  \<open>sessionId is required\<close>.
\<close>

theorem sse_post_messages_empty_id_counterexample:
  "query_sessionId scenario_empty_session_request = Some []
   \<and> transportsToSessionId scenario_sse_router [] = None
   \<and> filter is_response
        (effects (snd (sse_post_messages scenario_env scenario_empty_session_request
                         scenario_sse_router)))
       = [ResStatus 400, ResContentType ''text/plain'', ResWrite ''sessionId is required'']
   \<and> filter is_response
        (effects (snd (sse_post_messages scenario_env scenario_empty_session_request
                         scenario_sse_router)))
       \<noteq> [ResStatus 400, ResContentType ''text/plain'',
           ResWrite ''No transport found for sessionId \"\"'']"
proof -
  have q: "query_sessionId scenario_empty_session_request = Some []"
    by (simp add: scenario_empty_session_request_def)
  then have "\<not> truthy_opt (query_sessionId scenario_empty_session_request)"
    by (simp add: truthy_def)
  from sse_post_messages_required [OF this] q show ?thesis
    by (simp add: scenario_sse_router_def)
qed

text \<open>
  Claim C6, amended. \<open>POST /messages\<close> with an absent or empty \<open>sessionId\<close> records an
  \<open>mcp-invalid-session\<close> event and answers 400, text/plain, \<open>sessionId is required\<close>, without
  looking the registry up. With a non-empty id that the registry does not hold, it looks the
  id up, records an \<open>mcp-invalid-session\<close> event carrying the id and answers 400, text/plain,
  \<open>No transport found for sessionId "<id>"\<close>. With a non-empty registered id it hands the
  message to that session's transport, and in no other case. The id of the event is
  \<open>mcp-invalid-session\<close> given that kebab-casing leaves \<open>invalid-session\<close> as it is.
\<close>

theorem sse_post_messages_sessions:
  assumes "kebabCase env ''invalid-session'' = ''invalid-session''"
  shows "(\<not> truthy_opt (query_sessionId req) \<longrightarrow>
            sse_post_messages env req st =
              (None,
               st\<lparr>effects := effects st
                     @ [CreateEvent (length (effects st)) ''mcp-invalid-session'' Medium (Some req)
                          (Some [(''error'', MStr ''sessionId is required''),
                                 (''statusCode'', MNum 400)]),
                        ResStatus 400,
                        ResContentType ''text/plain'',
                        ResWrite ''sessionId is required'']\<rparr>))
       \<and> (\<forall>sid. query_sessionId req = Some sid \<and> sid \<noteq> []
                 \<and> transportsToSessionId st sid = None \<longrightarrow>
            sse_post_messages env req st =
              (None,
               st\<lparr>effects := effects st
                     @ [RegistryGet sid,
                        CreateEvent (Suc (length (effects st))) ''mcp-invalid-session'' Medium
                          (Some req)
                          (Some [(''sessionId'', MStr sid),
                                 (''error'', MStr ''No transport found for sessionId''),
                                 (''statusCode'', MNum 400)]),
                        ResStatus 400,
                        ResContentType ''text/plain'',
                        ResWrite (''No transport found for sessionId \"'' @ sid @ ''\"'')]\<rparr>))
       \<and> (\<forall>sid transport. query_sessionId req = Some sid \<and> sid \<noteq> []
                 \<and> transportsToSessionId st sid = Some transport \<longrightarrow>
            sse_post_messages env req st =
              (transport_handlePostMessage env (sessionId transport) req,
               st\<lparr>effects := effects st
                     @ [RegistryGet sid,
                        TransportHandlePostMessage (sessionId transport) req]\<rparr>))
       \<and> (filter is_handlePostMessage
             (new_effects (effects st) (effects (snd (sse_post_messages env req st)))) \<noteq> []
            \<longleftrightarrow> (\<exists>sid transport. query_sessionId req = Some sid \<and> sid \<noteq> []
                   \<and> transportsToSessionId st sid = Some transport))"
proof -
  note n = normalizedEventId_invalid_session [OF assms]
  have a: "\<not> truthy_opt (query_sessionId req) \<Longrightarrow>
             filter is_handlePostMessage
               (new_effects (effects st) (effects (snd (sse_post_messages env req st)))) = []"
    by (simp add: sse_post_messages_required new_effects_def)
  have b: "\<And>sid. query_sessionId req = Some sid \<Longrightarrow> sid \<noteq> [] \<Longrightarrow>
             transportsToSessionId st sid = None \<Longrightarrow>
             filter is_handlePostMessage
               (new_effects (effects st) (effects (snd (sse_post_messages env req st)))) = []"
    by (simp add: sse_post_messages_unknown new_effects_def)
  have c: "\<And>sid transport. query_sessionId req = Some sid \<Longrightarrow> sid \<noteq> [] \<Longrightarrow>
             transportsToSessionId st sid = Some transport \<Longrightarrow>
             filter is_handlePostMessage
               (new_effects (effects st) (effects (snd (sse_post_messages env req st)))) \<noteq> []"
    by (simp add: sse_post_messages_forward new_effects_def)
  have d: "filter is_handlePostMessage
             (new_effects (effects st) (effects (snd (sse_post_messages env req st)))) \<noteq> []
            \<longleftrightarrow> (\<exists>sid transport. query_sessionId req = Some sid \<and> sid \<noteq> []
                   \<and> transportsToSessionId st sid = Some transport)"
  proof (cases "query_sessionId req")
    case None
    then show ?thesis using a by simp
  next
    case (Some sid)
    show ?thesis
    proof (cases "sid = []")
      case True
      with Some show ?thesis using a by (simp add: truthy_def)
    next
      case False
      with Some show ?thesis using b [OF Some False] c [OF Some False]
        by (cases "transportsToSessionId st sid") auto
    qed
  qed
  have A: "\<not> truthy_opt (query_sessionId req) \<longrightarrow>
            sse_post_messages env req st =
              (None,
               st\<lparr>effects := effects st
                     @ [CreateEvent (length (effects st)) ''mcp-invalid-session'' Medium (Some req)
                          (Some [(''error'', MStr ''sessionId is required''),
                                 (''statusCode'', MNum 400)]),
                        ResStatus 400,
                        ResContentType ''text/plain'',
                        ResWrite ''sessionId is required'']\<rparr>)"
    by (simp add: sse_post_messages_required n)
  have B: "\<forall>sid. query_sessionId req = Some sid \<and> sid \<noteq> []
                 \<and> transportsToSessionId st sid = None \<longrightarrow>
            sse_post_messages env req st =
              (None,
               st\<lparr>effects := effects st
                     @ [RegistryGet sid,
                        CreateEvent (Suc (length (effects st))) ''mcp-invalid-session'' Medium
                          (Some req)
                          (Some [(''sessionId'', MStr sid),
                                 (''error'', MStr ''No transport found for sessionId''),
                                 (''statusCode'', MNum 400)]),
                        ResStatus 400,
                        ResContentType ''text/plain'',
                        ResWrite (''No transport found for sessionId \"'' @ sid @ ''\"'')]\<rparr>)"
    by (simp add: sse_post_messages_unknown n)
  have C: "\<forall>sid transport. query_sessionId req = Some sid \<and> sid \<noteq> []
                 \<and> transportsToSessionId st sid = Some transport \<longrightarrow>
            sse_post_messages env req st =
              (transport_handlePostMessage env (sessionId transport) req,
               st\<lparr>effects := effects st
                     @ [RegistryGet sid,
                        TransportHandlePostMessage (sessionId transport) req]\<rparr>)"
    by (simp add: sse_post_messages_forward)
  show ?thesis
    by (rule conjI [OF A conjI [OF B conjI [OF C d]]])
qed

theorem sse_post_messages_sessions_witness:
  "kebabCase scenario_env ''invalid-session'' = ''invalid-session''
   \<and> query_sessionId scenario_unknown_session_request = Some ''abc''
   \<and> transportsToSessionId scenario_sse_router ''abc'' = None
   \<and> \<not> truthy_opt (query_sessionId scenario_request)
   \<and> effects (snd (sse_post_messages scenario_env scenario_unknown_session_request
                     scenario_sse_router))
       = [RegistryGet ''abc'',
          CreateEvent 1 ''mcp-invalid-session'' Medium (Some scenario_unknown_session_request)
            (Some [(''sessionId'', MStr ''abc''),
                   (''error'', MStr ''No transport found for sessionId''),
                   (''statusCode'', MNum 400)]),
          ResStatus 400,
          ResContentType ''text/plain'',
          ResWrite ''No transport found for sessionId \"abc\"'']
   \<and> effects (snd (sse_post_messages scenario_env scenario_request scenario_sse_router))
       = [CreateEvent 0 ''mcp-invalid-session'' Medium (Some scenario_request)
            (Some [(''error'', MStr ''sessionId is required''),
                   (''statusCode'', MNum 400)]),
          ResStatus 400,
          ResContentType ''text/plain'',
          ResWrite ''sessionId is required'']
   \<and> effects (snd (sse_post_messages scenario_env scenario_unknown_session_request
                     (scenario_sse_router
                        \<lparr> transportsToSessionId :=
                            [''abc'' \<mapsto> \<lparr> endpoint = ''/sse/messages'', sessionId = ''abc'' \<rparr>] \<rparr>)))
       = [RegistryGet ''abc'',
          TransportHandlePostMessage ''abc'' scenario_unknown_session_request]"
proof -
  have k: "kebabCase scenario_env ''invalid-session'' = ''invalid-session''"
    by (simp add: scenario_env_def scenario_kebabCase_def)
  have q: "query_sessionId scenario_unknown_session_request = Some ''abc''"
    by (simp add: scenario_unknown_session_request_def)
  have q0: "\<not> truthy_opt (query_sessionId scenario_request)"
    by (simp add: scenario_request_def)
  have r: "transportsToSessionId scenario_sse_router ''abc'' = None"
    by (simp add: scenario_sse_router_def)
  have r': "transportsToSessionId (scenario_sse_router
                        \<lparr> transportsToSessionId :=
                            [''abc'' \<mapsto> \<lparr> endpoint = ''/sse/messages'', sessionId = ''abc'' \<rparr>] \<rparr>) ''abc''
             = Some \<lparr> endpoint = ''/sse/messages'', sessionId = ''abc'' \<rparr>"
    by simp
  note t1 = sse_post_messages_sessions [OF k, of scenario_unknown_session_request scenario_sse_router]
  note t2 = sse_post_messages_sessions [OF k, of scenario_request scenario_sse_router]
  note t3 = sse_post_messages_sessions [OF k, of scenario_unknown_session_request
              "scenario_sse_router
                        \<lparr> transportsToSessionId :=
                            [''abc'' \<mapsto> \<lparr> endpoint = ''/sse/messages'', sessionId = ''abc'' \<rparr>] \<rparr>"]
  from t1 q r have 1: "effects (snd (sse_post_messages scenario_env scenario_unknown_session_request
                     scenario_sse_router))
       = [RegistryGet ''abc'',
          CreateEvent 1 ''mcp-invalid-session'' Medium (Some scenario_unknown_session_request)
            (Some [(''sessionId'', MStr ''abc''),
                   (''error'', MStr ''No transport found for sessionId''),
                   (''statusCode'', MNum 400)]),
          ResStatus 400,
          ResContentType ''text/plain'',
          ResWrite ''No transport found for sessionId \"abc\"'']"
    by (simp add: scenario_sse_router_def)
  from t2 q0 have 2: "effects (snd (sse_post_messages scenario_env scenario_request scenario_sse_router))
       = [CreateEvent 0 ''mcp-invalid-session'' Medium (Some scenario_request)
            (Some [(''error'', MStr ''sessionId is required''),
                   (''statusCode'', MNum 400)]),
          ResStatus 400,
          ResContentType ''text/plain'',
          ResWrite ''sessionId is required'']"
    by (simp add: scenario_sse_router_def)
  from t3 q r' have 3: "effects (snd (sse_post_messages scenario_env scenario_unknown_session_request
                     (scenario_sse_router
                        \<lparr> transportsToSessionId :=
                            [''abc'' \<mapsto> \<lparr> endpoint = ''/sse/messages'', sessionId = ''abc'' \<rparr>] \<rparr>)))
       = [RegistryGet ''abc'',
          TransportHandlePostMessage ''abc'' scenario_unknown_session_request]"
    by (simp add: scenario_sse_router_def)
  from k q r q0 1 2 3 show ?thesis by blast
qed

text \<open>
  Claim C10. A \<open>POST /messages\<close> whose \<open>sessionId\<close> is missing or is not in the registry
  leaves the registry as it was, performs no registry write, invokes no transport's message
  handler, and does not fail.
\<close>

theorem sse_post_messages_frame:
  assumes "\<not> truthy_opt (query_sessionId req)
           \<or> (\<exists>sid. query_sessionId req = Some sid \<and> transportsToSessionId st sid = None)"
  shows "transportsToSessionId (snd (sse_post_messages env req st)) = transportsToSessionId st
       \<and> filter is_handlePostMessage
           (new_effects (effects st) (effects (snd (sse_post_messages env req st)))) = []
       \<and> (\<forall>s. RegistrySet s \<notin> set (new_effects (effects st)
                                        (effects (snd (sse_post_messages env req st))))
              \<and> RegistryDelete s \<notin> set (new_effects (effects st)
                                        (effects (snd (sse_post_messages env req st)))))
       \<and> fst (sse_post_messages env req st) = None"
proof (cases "truthy_opt (query_sessionId req)")
  case False
  then show ?thesis
    by (simp add: sse_post_messages_required new_effects_def)
next
  case True
  then obtain sid where s: "query_sessionId req = Some sid" "sid \<noteq> []"
    by (cases "query_sessionId req") (auto simp: truthy_def)
  with assms True have "transportsToSessionId st sid = None" by auto
  from sse_post_messages_unknown [OF s this] show ?thesis
    by (simp add: new_effects_def)
qed

theorem sse_post_messages_frame_witness:
  "(\<exists>sid. query_sessionId scenario_unknown_session_request = Some sid
          \<and> transportsToSessionId scenario_live_sse_router sid = None)
   \<and> \<not> truthy_opt (query_sessionId scenario_empty_session_request)
   \<and> transportsToSessionId scenario_live_sse_router ''live-session''
       = Some scenario_live_transport
   \<and> transportsToSessionId
        (snd (sse_post_messages scenario_env scenario_unknown_session_request
                scenario_live_sse_router))
       = [''live-session'' \<mapsto> scenario_live_transport]
   \<and> transportsToSessionId
        (snd (sse_post_messages scenario_env scenario_empty_session_request
                scenario_live_sse_router))
       = [''live-session'' \<mapsto> scenario_live_transport]
   \<and> filter is_handlePostMessage
        (effects (snd (sse_post_messages scenario_env scenario_unknown_session_request
                         scenario_live_sse_router)))
       = [TransportHandlePostMessage ''live-session'' scenario_request]
   \<and> filter is_handlePostMessage
        (new_effects (effects scenario_live_sse_router)
           (effects (snd (sse_post_messages scenario_env scenario_unknown_session_request
                            scenario_live_sse_router)))) = []
   \<and> filter is_handlePostMessage
        (new_effects (effects scenario_live_sse_router)
           (effects (snd (sse_post_messages scenario_env scenario_empty_session_request
                            scenario_live_sse_router)))) = []
   \<and> fst (sse_post_messages scenario_env scenario_unknown_session_request
             scenario_live_sse_router) = None
   \<and> fst (sse_post_messages scenario_env scenario_empty_session_request
             scenario_live_sse_router) = None"
proof -
  have q: "query_sessionId scenario_unknown_session_request = Some ''abc''"
    by (simp add: scenario_unknown_session_request_def)
  have r: "transportsToSessionId scenario_live_sse_router ''abc'' = None"
    by (simp add: scenario_live_sse_router_def)
  have l: "transportsToSessionId scenario_live_sse_router ''live-session''
             = Some scenario_live_transport"
    by (simp add: scenario_live_sse_router_def)
  have m: "transportsToSessionId scenario_live_sse_router
             = [''live-session'' \<mapsto> scenario_live_transport]"
    by (simp add: scenario_live_sse_router_def)
  have e: "\<not> truthy_opt (query_sessionId scenario_empty_session_request)"
    by (simp add: scenario_empty_session_request_def truthy_def)
  from q r have h: "\<exists>sid. query_sessionId scenario_unknown_session_request = Some sid
          \<and> transportsToSessionId scenario_live_sse_router sid = None"
    by blast
  then have h1: "\<not> truthy_opt (query_sessionId scenario_unknown_session_request)
           \<or> (\<exists>sid. query_sessionId scenario_unknown_session_request = Some sid
                 \<and> transportsToSessionId scenario_live_sse_router sid = None)"
    by blast
  from e have h2: "\<not> truthy_opt (query_sessionId scenario_empty_session_request)
           \<or> (\<exists>sid. query_sessionId scenario_empty_session_request = Some sid
                 \<and> transportsToSessionId scenario_live_sse_router sid = None)"
    by blast
  note u = sse_post_messages_frame [OF h1, of scenario_env]
  note v = sse_post_messages_frame [OF h2, of scenario_env]
  have n: "effects (snd (sse_post_messages scenario_env scenario_unknown_session_request
                           scenario_live_sse_router))
             = effects scenario_live_sse_router
               @ new_effects (effects scenario_live_sse_router)
                   (effects (snd (sse_post_messages scenario_env scenario_unknown_session_request
                                    scenario_live_sse_router)))"
    by (simp add: sse_post_messages_unknown [OF q _ r] new_effects_def)
  have old: "filter is_handlePostMessage (effects scenario_live_sse_router)
               = [TransportHandlePostMessage ''live-session'' scenario_request]"
    by (simp add: scenario_live_sse_router_def)
  from u have u1: "transportsToSessionId
        (snd (sse_post_messages scenario_env scenario_unknown_session_request
                scenario_live_sse_router))
       = [''live-session'' \<mapsto> scenario_live_transport]"
    by (simp only: m)
  from v have v1: "transportsToSessionId
        (snd (sse_post_messages scenario_env scenario_empty_session_request
                scenario_live_sse_router))
       = [''live-session'' \<mapsto> scenario_live_transport]"
    by (simp only: m)
  from u have u2: "filter is_handlePostMessage
        (new_effects (effects scenario_live_sse_router)
           (effects (snd (sse_post_messages scenario_env scenario_unknown_session_request
                            scenario_live_sse_router)))) = []"
    by blast
  from v have v2: "filter is_handlePostMessage
        (new_effects (effects scenario_live_sse_router)
           (effects (snd (sse_post_messages scenario_env scenario_empty_session_request
                            scenario_live_sse_router)))) = []"
    by blast
  from u have u3: "fst (sse_post_messages scenario_env scenario_unknown_session_request
             scenario_live_sse_router) = None"
    by blast
  from v have v3: "fst (sse_post_messages scenario_env scenario_empty_session_request
             scenario_live_sse_router) = None"
    by blast
  have w: "filter is_handlePostMessage
        (effects (snd (sse_post_messages scenario_env scenario_unknown_session_request
                         scenario_live_sse_router)))
       = [TransportHandlePostMessage ''live-session'' scenario_request]"
    by (subst n) (simp only: filter_append old u2 append_Nil2)
  from h e l u1 v1 w u2 v2 u3 v3 show ?thesis by blast
qed

section \<open>Authentication on the two transports\<close>

lemma normalizedEventId_auth_attempt:
  assumes "kebabCase env ''auth-attempt'' = ''auth-attempt''"
  shows "normalizedEventId env (Some ''auth-attempt'') = ''mcp-auth-attempt''"
  using normalizedEventId_unprefixed [OF assms] by (simp add: startsWith_def)

lemma normalizedEventId_connection_error:
  assumes "kebabCase env ''connection-error'' = ''connection-error''"
  shows "normalizedEventId env (Some ''connection-error'') = ''mcp-connection-error''"
  using normalizedEventId_unprefixed [OF assms] by (simp add: startsWith_def)

lemma streamable_post_auth_fails:
  assumes "httpAuth_credentials env req = Inl e"
  shows "streamable_post env req hs0 uuid tr =
           streamable_post_catch env req None None hs0 e
             (tr @ [CreateEvent (length tr) (normalizedEventId env (Some ''auth-attempt''))
                      Medium (Some req)
                      (Some [(''transport'', MStr ''streamable''),
                             (''hasAuthHeader'', MBool (truthy_opt (authorization req)))]),
                    HttpAuthCredentials req])"
  using assms by (simp add: streamable_post_def auditCreateEvent_eq Let_def)

lemma streamable_post_catch_completes:
  assumes "h < length tr"
  shows "\<exists>rest. snd (streamable_post_catch env req clientId creds hs e tr) = tr @ rest
               \<and> filter (completes h) rest = []"
proof -
  let ?log = "if isError e then [LoggerError (errorMessage e)] else []"
  let ?n = "length (tr @ ?log)"
  let ?rest = "?log
     @ [CreateEvent ?n (normalizedEventId env (Some ''http-error'')) High (Some req)
          (Some [(''transport'', MStr ''streamable''),
                 (''clientId'', mstr_opt clientId),
                 (''errorType'', MStr (errorType e)),
                 (''errorMessage'', MStr (errorMessage e)),
                 (''statusCode'', MNum 500),
                 (''jsonrpcCode'', MNum (- 32603)),
                 (''principal'', principal_opt creds)])]
     @ (if hs then []
        else [ResStatus 500, ResJson (jsonrpc_error (- 32603) ''Internal server error'')])
     @ [EventFail ?n e None]"
  have "snd (streamable_post_catch env req clientId creds hs e tr) = tr @ ?rest"
    by (simp add: streamable_post_catch_def auditCreateEvent_eq Let_def)
  moreover have "filter (completes h) ?rest = []"
    using assms by simp
  ultimately show ?thesis by blast
qed

lemma streamable_post_auth_ok:
  assumes "httpAuth_credentials env req = Inr c"
  shows "\<exists>rest. snd (streamable_post env req hs0 uuid tr) =
                  tr @ [CreateEvent (length tr) (normalizedEventId env (Some ''auth-attempt''))
                          Medium (Some req)
                          (Some [(''transport'', MStr ''streamable''),
                                 (''hasAuthHeader'', MBool (truthy_opt (authorization req)))]),
                        HttpAuthCredentials req,
                        EventSuccess (length tr) (Some [(''principal'', principal c)])] @ rest
               \<and> filter (completes (length tr)) rest = []"
proof -
  let ?a = "[CreateEvent (length tr) (normalizedEventId env (Some ''auth-attempt''))
               Medium (Some req)
               (Some [(''transport'', MStr ''streamable''),
                      (''hasAuthHeader'', MBool (truthy_opt (authorization req)))]),
             HttpAuthCredentials req,
             EventSuccess (length tr) (Some [(''principal'', principal c)])]"
  show ?thesis
  proof (cases "server_connect env req")
    case (Some e)
    let ?t = "tr @ ?a @ [ServerConnect req]"
    have p: "streamable_post env req hs0 uuid tr
               = streamable_post_catch env req (Some uuid) (Some c) hs0 e ?t"
      using assms Some by (simp add: streamable_post_def auditCreateEvent_eq Let_def)
    have "length tr < length ?t" by simp
    from streamable_post_catch_completes [OF this, of env req "Some uuid" "Some c" hs0 e]
    obtain rest where r: "snd (streamable_post_catch env req (Some uuid) (Some c) hs0 e ?t)
                            = ?t @ rest" "filter (completes (length tr)) rest = []"
      by blast
    have "snd (streamable_post env req hs0 uuid tr) = tr @ ?a @ (ServerConnect req # rest)"
      using p r(1) by simp
    moreover have "filter (completes (length tr)) (ServerConnect req # rest) = []"
      using r(2) by simp
    ultimately show ?thesis by blast
  next
    case None
    let ?b = "[ServerConnect req,
               CreateEvent (Suc (Suc (Suc (Suc (length tr)))))
                 (normalizedEventId env (Some ''connection-established''))
                 Medium (Some req)
                 (Some [(''transport'', MStr ''streamable''),
                        (''clientId'', MStr uuid),
                        (''principal'', principal c)]),
               TransportHandleRequest req]"
    obtain r sent where h: "transport_handleRequest env req = (r, sent)"
      by (cases "transport_handleRequest env req")
    show ?thesis
    proof (cases r)
      case None2: None
      have "snd (streamable_post env req hs0 uuid tr)
              = tr @ ?a @ (?b @ [ResOnClose, EventSuccess (Suc (Suc (Suc (Suc (length tr))))) None])"
        using assms None h None2
        by (simp add: streamable_post_def auditCreateEvent_eq Let_def)
      moreover have "filter (completes (length tr))
                       (?b @ [ResOnClose, EventSuccess (Suc (Suc (Suc (Suc (length tr))))) None]) = []"
        by simp
      ultimately show ?thesis by blast
    next
      case (Some e)
      let ?t = "tr @ ?a @ ?b"
      have p: "streamable_post env req hs0 uuid tr
                 = streamable_post_catch env req (Some uuid) (Some c) (hs0 \<or> sent) e ?t"
        using assms None h Some
        by (simp add: streamable_post_def auditCreateEvent_eq Let_def)
      have "length tr < length ?t" by simp
      from streamable_post_catch_completes [OF this, of env req "Some uuid" "Some c" "hs0 \<or> sent" e]
      obtain rest where r: "snd (streamable_post_catch env req (Some uuid) (Some c) (hs0 \<or> sent) e ?t)
                              = ?t @ rest" "filter (completes (length tr)) rest = []"
        by blast
      have "snd (streamable_post env req hs0 uuid tr) = tr @ ?a @ (?b @ rest)"
        using p r(1) by simp
      moreover have "filter (completes (length tr)) (?b @ rest) = []"
        using r(2) by simp
      ultimately show ?thesis by blast
    qed
  qed
qed

lemma sse_get_auth_fails:
  assumes "httpAuth_credentials env req = Inl e"
  shows "sse_get env req uuid st =
           (Some e,
            st\<lparr>effects := effects st
                  @ [CreateEvent (length (effects st)) (normalizedEventId env (Some ''auth-attempt''))
                       Medium (Some req)
                       (Some [(''transport'', MStr ''sse''),
                              (''hasAuthHeader'', MBool (truthy_opt (authorization req)))]),
                     HttpAuthCredentials req,
                     CreateEvent (Suc (Suc (length (effects st))))
                       (normalizedEventId env (Some ''connection-error''))
                       High (Some req)
                       (Some [(''transport'', MStr ''sse''),
                              (''errorType'', MStr (errorType e)),
                              (''errorMessage'', MStr (errorMessage e)),
                              (''principal'', MUndefined)])]\<rparr>)"
  using assms by (simp add: sse_get_def sse_get_catch_def auditCreateEvent_eq Let_def)

lemma sse_get_auth_ok:
  assumes "httpAuth_credentials env req = Inr c"
  shows "\<exists>rest. effects (snd (sse_get env req uuid st)) =
                  effects st
                  @ [CreateEvent (length (effects st)) (normalizedEventId env (Some ''auth-attempt''))
                       Medium (Some req)
                       (Some [(''transport'', MStr ''sse''),
                              (''hasAuthHeader'', MBool (truthy_opt (authorization req)))]),
                     HttpAuthCredentials req,
                     EventSuccess (length (effects st)) (Some [(''principal'', principal c)])] @ rest
               \<and> filter (completes (length (effects st))) rest = []"
proof -
  let ?n = "length (effects st)"
  let ?b = "[RegistrySet uuid,
             CreateEvent (Suc (Suc (Suc (Suc (?n))))) (normalizedEventId env (Some ''connection-established''))
               Medium (Some req)
               (Some [(''transport'', MStr ''sse''),
                      (''sessionId'', MStr uuid),
                      (''principal'', principal c)]),
             ResOnClose,
             ServerConnect req]"
  show ?thesis
  proof (cases "server_connect env req")
    case None
    show ?thesis
      apply (rule exI [of _ "?b @ [EventSuccess (Suc (Suc (Suc (Suc (?n))))) None]"])
      using assms None
      apply (simp add: sse_get_def auditCreateEvent_eq Let_def)
      done
  next
    case (Some e)
    show ?thesis
      apply (rule exI [of _ "?b @ [CreateEvent (Suc (Suc (Suc (Suc (Suc (Suc (Suc (?n))))))))
                                     (normalizedEventId env (Some ''connection-error''))
                                     High (Some req)
                                     (Some [(''transport'', MStr ''sse''),
                                            (''errorType'', MStr (errorType e)),
                                            (''errorMessage'', MStr (errorMessage e)),
                                            (''principal'', principal c)])]"])
      using assms Some
      apply (simp add: sse_get_def sse_get_catch_def auditCreateEvent_eq Let_def)
      done
  qed
qed

text \<open>
  Claim C8 as stated has the \<open>mcp-auth-attempt\<close> handle marked failed when credential
  resolution fails, and no protocol response serialised. On a request without credentials
  neither router ever completes that handle, and the stateless \<open>POST /\<close> answers with the
  500 envelope and returns normally.
\<close>

theorem auth_attempt_failure_counterexample:
  "httpAuth_credentials scenario_env scenario_anonymous_request
     = Inl (ErrorObj ''AuthenticationError'' ''Missing credentials'')
   \<and> snd (streamable_post scenario_env scenario_anonymous_request False ''uuid-1'' []) ! 0
       = CreateEvent 0 ''mcp-auth-attempt'' Medium (Some scenario_anonymous_request)
           (Some [(''transport'', MStr ''streamable''), (''hasAuthHeader'', MBool False)])
   \<and> filter (completes 0)
        (snd (streamable_post scenario_env scenario_anonymous_request False ''uuid-1'' [])) = []
   \<and> fst (streamable_post scenario_env scenario_anonymous_request False ''uuid-1'' []) = None
   \<and> filter is_response
        (snd (streamable_post scenario_env scenario_anonymous_request False ''uuid-1'' []))
       = [ResStatus 500, ResJson (jsonrpc_error (- 32603) ''Internal server error'')]
   \<and> effects (snd (sse_get scenario_env scenario_anonymous_request ''abc'' scenario_sse_router)) ! 0
       = CreateEvent 0 ''mcp-auth-attempt'' Medium (Some scenario_anonymous_request)
           (Some [(''transport'', MStr ''sse''), (''hasAuthHeader'', MBool False)])
   \<and> filter (completes 0)
        (effects (snd (sse_get scenario_env scenario_anonymous_request ''abc''
                         scenario_sse_router))) = []"
proof -
  have a: "httpAuth_credentials scenario_env scenario_anonymous_request
             = Inl (ErrorObj ''AuthenticationError'' ''Missing credentials'')"
    by (simp add: scenario_env_def scenario_anonymous_request_def scenario_request_def)
  have k1: "kebabCase scenario_env ''auth-attempt'' = ''auth-attempt''"
    by (simp add: scenario_env_def scenario_kebabCase_def)
  have k2: "kebabCase scenario_env ''http-error'' = ''http-error''"
    by (simp add: scenario_env_def scenario_kebabCase_def)
  have h: "authorization scenario_anonymous_request = None"
    by (simp add: scenario_anonymous_request_def)
  show ?thesis
    using a h
    by (simp add: streamable_post_auth_fails [OF a] streamable_post_catch_eq [OF k2]
        sse_get_auth_fails [OF a] normalizedEventId_auth_attempt [OF k1] scenario_sse_router_def)
qed

text \<open>
  Claim C8, amended. On both transports an \<open>mcp-auth-attempt\<close> event is created, then the
  credentials are resolved. When resolution succeeds the handle is marked successful right
  after, and is not completed again. When it fails the handle is left uncompleted: the
  stateless \<open>POST /\<close> records \<open>mcp-http-error\<close>, answers with the 500 envelope unless headers
  were already sent, fails that event and returns normally; the legacy \<open>GET /\<close> records
  \<open>mcp-connection-error\<close>, writes nothing and rethrows. The ids are the literal ones given that
  kebab-casing leaves \<open>auth-attempt\<close>, \<open>http-error\<close> and \<open>connection-error\<close> as they are.
\<close>

theorem auth_attempt_outcomes:
  assumes "kebabCase env ''auth-attempt'' = ''auth-attempt''"
      and "kebabCase env ''http-error'' = ''http-error''"
      and "kebabCase env ''connection-error'' = ''connection-error''"
  shows "(\<forall>c. httpAuth_credentials env req = Inr c \<longrightarrow>
            (\<exists>rest. snd (streamable_post env req sentBefore uuid tr) =
                      tr @ [CreateEvent (length tr) ''mcp-auth-attempt'' Medium (Some req)
                              (Some [(''transport'', MStr ''streamable''),
                                     (''hasAuthHeader'', MBool (truthy_opt (authorization req)))]),
                            HttpAuthCredentials req,
                            EventSuccess (length tr) (Some [(''principal'', principal c)])] @ rest
                   \<and> filter (completes (length tr)) rest = [])
          \<and> (\<exists>rest. effects (snd (sse_get env req uuid st)) =
                      effects st
                      @ [CreateEvent (length (effects st)) ''mcp-auth-attempt'' Medium (Some req)
                           (Some [(''transport'', MStr ''sse''),
                                  (''hasAuthHeader'', MBool (truthy_opt (authorization req)))]),
                         HttpAuthCredentials req,
                         EventSuccess (length (effects st)) (Some [(''principal'', principal c)])]
                      @ rest
                   \<and> filter (completes (length (effects st))) rest = []))
       \<and> (\<forall>e. httpAuth_credentials env req = Inl e \<longrightarrow>
            streamable_post env req sentBefore uuid tr =
              (None,
               tr @ [CreateEvent (length tr) ''mcp-auth-attempt'' Medium (Some req)
                       (Some [(''transport'', MStr ''streamable''),
                              (''hasAuthHeader'', MBool (truthy_opt (authorization req)))]),
                     HttpAuthCredentials req]
               @ (if isError e then [LoggerError (errorMessage e)] else [])
               @ [CreateEvent (length tr + 2 + (if isError e then 1 else 0)) ''mcp-http-error''
                    High (Some req)
                    (Some [(''transport'', MStr ''streamable''),
                           (''clientId'', MUndefined),
                           (''errorType'', MStr (errorType e)),
                           (''errorMessage'', MStr (errorMessage e)),
                           (''statusCode'', MNum 500),
                           (''jsonrpcCode'', MNum (- 32603)),
                           (''principal'', MUndefined)])]
               @ (if sentBefore then []
                  else [ResStatus 500, ResJson (jsonrpc_error (- 32603) ''Internal server error'')])
               @ [EventFail (length tr + 2 + (if isError e then 1 else 0)) e None])
          \<and> filter (completes (length tr))
               (new_effects tr (snd (streamable_post env req sentBefore uuid tr))) = []
          \<and> sse_get env req uuid st =
              (Some e,
               st\<lparr>effects := effects st
                     @ [CreateEvent (length (effects st)) ''mcp-auth-attempt'' Medium (Some req)
                          (Some [(''transport'', MStr ''sse''),
                                 (''hasAuthHeader'', MBool (truthy_opt (authorization req)))]),
                        HttpAuthCredentials req,
                        CreateEvent (length (effects st) + 2) ''mcp-connection-error'' High
                          (Some req)
                          (Some [(''transport'', MStr ''sse''),
                                 (''errorType'', MStr (errorType e)),
                                 (''errorMessage'', MStr (errorMessage e)),
                                 (''principal'', MUndefined)])]\<rparr>))"
proof (intro conjI allI impI)
  fix c assume a: "httpAuth_credentials env req = Inr c"
  from streamable_post_auth_ok [OF a, of sentBefore uuid tr]
  show "\<exists>rest. snd (streamable_post env req sentBefore uuid tr) =
                      tr @ [CreateEvent (length tr) ''mcp-auth-attempt'' Medium (Some req)
                              (Some [(''transport'', MStr ''streamable''),
                                     (''hasAuthHeader'', MBool (truthy_opt (authorization req)))]),
                            HttpAuthCredentials req,
                            EventSuccess (length tr) (Some [(''principal'', principal c)])] @ rest
                   \<and> filter (completes (length tr)) rest = []"
    by (simp only: normalizedEventId_auth_attempt [OF assms(1)])
  from sse_get_auth_ok [OF a, of uuid st]
  show "\<exists>rest. effects (snd (sse_get env req uuid st)) =
                      effects st
                      @ [CreateEvent (length (effects st)) ''mcp-auth-attempt'' Medium (Some req)
                           (Some [(''transport'', MStr ''sse''),
                                  (''hasAuthHeader'', MBool (truthy_opt (authorization req)))]),
                         HttpAuthCredentials req,
                         EventSuccess (length (effects st)) (Some [(''principal'', principal c)])]
                      @ rest
                   \<and> filter (completes (length (effects st))) rest = []"
    by (simp only: normalizedEventId_auth_attempt [OF assms(1)])
next
  fix e assume a: "httpAuth_credentials env req = Inl e"
  show p: "streamable_post env req sentBefore uuid tr =
              (None,
               tr @ [CreateEvent (length tr) ''mcp-auth-attempt'' Medium (Some req)
                       (Some [(''transport'', MStr ''streamable''),
                              (''hasAuthHeader'', MBool (truthy_opt (authorization req)))]),
                     HttpAuthCredentials req]
               @ (if isError e then [LoggerError (errorMessage e)] else [])
               @ [CreateEvent (length tr + 2 + (if isError e then 1 else 0)) ''mcp-http-error''
                    High (Some req)
                    (Some [(''transport'', MStr ''streamable''),
                           (''clientId'', MUndefined),
                           (''errorType'', MStr (errorType e)),
                           (''errorMessage'', MStr (errorMessage e)),
                           (''statusCode'', MNum 500),
                           (''jsonrpcCode'', MNum (- 32603)),
                           (''principal'', MUndefined)])]
               @ (if sentBefore then []
                  else [ResStatus 500, ResJson (jsonrpc_error (- 32603) ''Internal server error'')])
               @ [EventFail (length tr + 2 + (if isError e then 1 else 0)) e None])"
    by (simp add: streamable_post_auth_fails [OF a] streamable_post_catch_eq [OF assms(2)]
        normalizedEventId_auth_attempt [OF assms(1)])
  show "filter (completes (length tr))
               (new_effects tr (snd (streamable_post env req sentBefore uuid tr))) = []"
    unfolding p by (simp add: new_effects_def)
  show "sse_get env req uuid st =
              (Some e,
               st\<lparr>effects := effects st
                     @ [CreateEvent (length (effects st)) ''mcp-auth-attempt'' Medium (Some req)
                          (Some [(''transport'', MStr ''sse''),
                                 (''hasAuthHeader'', MBool (truthy_opt (authorization req)))]),
                        HttpAuthCredentials req,
                        CreateEvent (length (effects st) + 2) ''mcp-connection-error'' High
                          (Some req)
                          (Some [(''transport'', MStr ''sse''),
                                 (''errorType'', MStr (errorType e)),
                                 (''errorMessage'', MStr (errorMessage e)),
                                 (''principal'', MUndefined)])]\<rparr>)"
    by (simp add: sse_get_auth_fails [OF a] normalizedEventId_auth_attempt [OF assms(1)]
        normalizedEventId_connection_error [OF assms(3)])
qed

theorem auth_attempt_outcomes_witness:
  "kebabCase scenario_env ''auth-attempt'' = ''auth-attempt''
   \<and> kebabCase scenario_env ''http-error'' = ''http-error''
   \<and> kebabCase scenario_env ''connection-error'' = ''connection-error''
   \<and> httpAuth_credentials scenario_env scenario_request = Inr scenario_creds
   \<and> httpAuth_credentials scenario_env scenario_anonymous_request
       = Inl (ErrorObj ''AuthenticationError'' ''Missing credentials'')
   \<and> take 3 (snd (streamable_post scenario_env scenario_request False ''uuid-1'' []))
       = [CreateEvent 0 ''mcp-auth-attempt'' Medium (Some scenario_request)
            (Some [(''transport'', MStr ''streamable''), (''hasAuthHeader'', MBool True)]),
          HttpAuthCredentials scenario_request,
          EventSuccess 0 (Some [(''principal'', MStr ''user:default/guest'')])]
   \<and> sse_get scenario_env scenario_anonymous_request ''abc'' scenario_sse_router =
       (Some (ErrorObj ''AuthenticationError'' ''Missing credentials''),
        \<lparr> transportsToSessionId = Map.empty,
          effects =
            [CreateEvent 0 ''mcp-auth-attempt'' Medium (Some scenario_anonymous_request)
               (Some [(''transport'', MStr ''sse''), (''hasAuthHeader'', MBool False)]),
             HttpAuthCredentials scenario_anonymous_request,
             CreateEvent 2 ''mcp-connection-error'' High (Some scenario_anonymous_request)
               (Some [(''transport'', MStr ''sse''),
                      (''errorType'', MStr ''AuthenticationError''),
                      (''errorMessage'', MStr ''Missing credentials''),
                      (''principal'', MUndefined)])] \<rparr>)"
proof -
  have k1: "kebabCase scenario_env ''auth-attempt'' = ''auth-attempt''"
    by (simp add: scenario_env_def scenario_kebabCase_def)
  have k2: "kebabCase scenario_env ''http-error'' = ''http-error''"
    by (simp add: scenario_env_def scenario_kebabCase_def)
  have k3: "kebabCase scenario_env ''connection-error'' = ''connection-error''"
    by (simp add: scenario_env_def scenario_kebabCase_def)
  have a1: "httpAuth_credentials scenario_env scenario_request = Inr scenario_creds"
    by (simp add: scenario_env_def scenario_request_def truthy_def)
  have a2: "httpAuth_credentials scenario_env scenario_anonymous_request
             = Inl (ErrorObj ''AuthenticationError'' ''Missing credentials'')"
    by (simp add: scenario_env_def scenario_anonymous_request_def scenario_request_def)
  have h1: "truthy_opt (authorization scenario_request)"
    by (simp add: scenario_request_def truthy_def)
  have h2: "authorization scenario_anonymous_request = None"
    by (simp add: scenario_anonymous_request_def)
  note t1 = auth_attempt_outcomes [OF k1 k2 k3, where req = scenario_request and sentBefore = False
              and uuid = "''uuid-1''" and tr = "[]" and st = scenario_sse_router]
  note t2 = auth_attempt_outcomes [OF k1 k2 k3, where req = scenario_anonymous_request
              and sentBefore = False and uuid = "''abc''" and tr = "[]" and st = scenario_sse_router]
  from t1 a1 h1 have 1:
    "take 3 (snd (streamable_post scenario_env scenario_request False ''uuid-1'' []))
       = [CreateEvent 0 ''mcp-auth-attempt'' Medium (Some scenario_request)
            (Some [(''transport'', MStr ''streamable''), (''hasAuthHeader'', MBool True)]),
          HttpAuthCredentials scenario_request,
          EventSuccess 0 (Some [(''principal'', MStr ''user:default/guest'')])]"
    by (auto simp: scenario_creds_def)
  from t2 a2 h2 have 2:
    "sse_get scenario_env scenario_anonymous_request ''abc'' scenario_sse_router =
       (Some (ErrorObj ''AuthenticationError'' ''Missing credentials''),
        \<lparr> transportsToSessionId = Map.empty,
          effects =
            [CreateEvent 0 ''mcp-auth-attempt'' Medium (Some scenario_anonymous_request)
               (Some [(''transport'', MStr ''sse''), (''hasAuthHeader'', MBool False)]),
             HttpAuthCredentials scenario_anonymous_request,
             CreateEvent 2 ''mcp-connection-error'' High (Some scenario_anonymous_request)
               (Some [(''transport'', MStr ''sse''),
                      (''errorType'', MStr ''AuthenticationError''),
                      (''errorMessage'', MStr ''Missing credentials''),
                      (''principal'', MUndefined)])] \<rparr>)"
    by (simp add: scenario_sse_router_def)
  from k1 k2 k3 a1 a2 1 2 show ?thesis by blast
qed

end
